theory Spec2Isabelle
  imports Main "HOL-Library.AList" "HOL-Library.Char_ord" "HOL-Library.List_Lexorder"
begin

section \<open>Tier policy\<close>

text \<open>
  A profile is a row of the \<open>profiles\<close> collection, read through property access:
  a property that is missing or \<open>null\<close> reads as \<open>None\<close>. The default profile built
  by \<open>fetchProfile\<close> has an \<open>id\<close> and \<open>is_pro: false\<close> and no other property.
  The expiry is the timestamp string of the row; \<open>new Date(s)\<close> is a parameter
  \<open>Date_parse\<close> of the model, \<open>None\<close> standing for an invalid date, whose comparisons
  are all false. The current time \<open>new Date()\<close> is the parameter \<open>now\<close>
  (milliseconds).
\<close>

record profile =
  p_id :: "string option"
  is_pro :: "bool option"
  pro_expires_at :: "string option"

text \<open>Truthiness of the two kinds of property the predicate reads.\<close>

definition truthy_flag :: "bool option \<Rightarrow> bool" where
  "truthy_flag v = (case v of None \<Rightarrow> False | Some b \<Rightarrow> b)"

definition truthy_str :: "string option \<Rightarrow> bool" where
  "truthy_str v = (case v of None \<Rightarrow> False | Some s \<Rightarrow> s \<noteq> [])"

text \<open>\<open>new Date(s) > new Date()\<close>\<close>

definition date_after :: "(string \<Rightarrow> int option) \<Rightarrow> string \<Rightarrow> int \<Rightarrow> bool" where
  "date_after Date_parse s now = (case Date_parse s of None \<Rightarrow> False | Some t \<Rightarrow> now < t)"

text \<open>
  \<^verbatim>\<open>const isPro = profile?.is_pro &&
    (!profile?.pro_expires_at || new Date(profile.pro_expires_at) > new Date());\<close>
  The profile of the auth context is \<open>null\<close> until the first fetch. The value is only
  ever used as a condition, so the model returns its truthiness.
\<close>

definition isPro :: "(string \<Rightarrow> int option) \<Rightarrow> int \<Rightarrow> profile option \<Rightarrow> bool" where
  "isPro Date_parse now prof =
     (case prof of
        None \<Rightarrow> False
      | Some p \<Rightarrow>
          truthy_flag (is_pro p) \<and>
          (\<not> truthy_str (pro_expires_at p) \<or>
           (case pro_expires_at p of
              None \<Rightarrow> False
            | Some s \<Rightarrow> date_after Date_parse s now)))"

text \<open>
  The predicate in the words of the specification:
  \<open>isEntitled(profile) = profile.is_pro AND (profile.pro_expires_at is absent OR
  profile.pro_expires_at > now)\<close>. A profile has an expiry value when the property holds
  a non-empty string; \<open>null\<close>, a missing property and the empty string are no value.
\<close>

definition expiry_absent :: "profile \<Rightarrow> bool" where
  "expiry_absent p = (pro_expires_at p = None \<or> pro_expires_at p = Some [])"

definition expiry_later :: "(string \<Rightarrow> int option) \<Rightarrow> int \<Rightarrow> profile \<Rightarrow> bool" where
  "expiry_later Date_parse now p =
     (case pro_expires_at p of
        None \<Rightarrow> False
      | Some s \<Rightarrow> (case Date_parse s of None \<Rightarrow> False | Some t \<Rightarrow> t > now))"

definition isEntitled :: "(string \<Rightarrow> int option) \<Rightarrow> int \<Rightarrow> profile \<Rightarrow> bool" where
  "isEntitled Date_parse now p =
     (is_pro p = Some True \<and> (expiry_absent p \<or> expiry_later Date_parse now p))"


section \<open>Session and identity manager: the profile fetch\<close>

datatype failure = Failure (message: string)

text \<open>
  What \<open>await response.json()\<close> gives: it throws on a body that is not JSON; otherwise
  the program only asks whether the value is an array and reads its first element.
  An element that is \<open>null\<close> is \<open>None\<close>.
\<close>

datatype 'a json_body = Unparseable | Non_array | Array "'a list"

text \<open>
  The outcome of the time-bounded \<open>fetch\<close>: it rejects (network failure, or the abort
  fired by the 5 second timer), or it resolves with a status and a body.
\<close>

datatype 'a fetched = Fetch_rejected failure | Response nat "'a json_body"

record auth =
  user :: "string option"
  profile :: "profile option"
  auth_loading :: bool

definition default_profile :: "string \<Rightarrow> profile" where
  "default_profile userId = \<lparr>p_id = Some userId, is_pro = Some False, pro_expires_at = None\<rparr>"

text \<open>
  \<open>fetchProfile\<close>: the whole body sits in \<open>try\<close>/\<open>catch\<close>; the status is logged and
  not otherwise read.
\<close>

definition fetchProfile :: "string \<Rightarrow> profile option fetched \<Rightarrow> auth \<Rightarrow> auth" where
  "fetchProfile userId r a =
     (case r of
        Fetch_rejected err \<Rightarrow> a\<lparr>profile := Some (default_profile userId), auth_loading := False\<rparr>
      | Response status body \<Rightarrow>
          (case body of
             Unparseable \<Rightarrow> a\<lparr>profile := Some (default_profile userId), auth_loading := False\<rparr>
           | Non_array \<Rightarrow> a\<lparr>profile := Some (default_profile userId), auth_loading := False\<rparr>
           | Array data \<Rightarrow>
               (case data of
                  [] \<Rightarrow> a\<lparr>profile := Some (default_profile userId), auth_loading := False\<rparr>
                | x # xs \<Rightarrow> a\<lparr>profile := x, auth_loading := False\<rparr>)))"

text \<open>\<open>response.ok\<close>\<close>

definition response_ok :: "nat \<Rightarrow> bool" where
  "response_ok status = (200 \<le> status \<and> status \<le> 299)"

text \<open>
  The failures the specification lists for the profile fetch: a non-2xx response, a
  timeout or abort, a malformed or non-array body.
\<close>

definition fetch_failure :: "'a fetched \<Rightarrow> bool" where
  "fetch_failure r =
     (case r of
        Fetch_rejected err \<Rightarrow> True
      | Response status body \<Rightarrow>
          \<not> response_ok status \<or> body = Unparseable \<or> body = Non_array)"

text \<open>The outcomes on which the code's own test falls through to the default profile.\<close>

definition no_profile_row :: "'a fetched \<Rightarrow> bool" where
  "no_profile_row r =
     (case r of
        Fetch_rejected err \<Rightarrow> True
      | Response status body \<Rightarrow> (case body of Array (x # xs) \<Rightarrow> False | _ \<Rightarrow> True))"


section \<open>Remote data gateway\<close>

text \<open>
  Identifiers are the strings the backend assigns. Every gateway call resolves to
  \<open>{data, error: null}\<close> (\<open>Reply\<close>), resolves to \<open>{data: null, error}\<close> when the
  response is not ok (\<open>Refused\<close>), or throws when the transport fails (\<open>Thrown\<close>).
\<close>

type_synonym ident = string

datatype 'a reply = Reply 'a | Refused failure | Thrown failure

record athlete_row =
  a_id :: ident
  a_name :: string

text \<open>The object sent by \<open>db.insert('sessions', ...)\<close> and the row that comes back.\<close>

record session_insert =
  si_athlete_id :: ident
  si_date :: string
  si_duration_minutes :: int
  si_focus :: "string list"
  si_note :: "string option"
  si_reflection :: "string option"

record session_row =
  sr_id :: ident
  sr_athlete_id :: ident
  sr_date :: string
  sr_duration_minutes :: int
  sr_focus :: "string list"
  sr_note :: "string option"
  sr_reflection :: "string option"

record goal_insert =
  gi_athlete_id :: ident
  gi_skill :: string
  gi_text :: string
  gi_is_active :: bool

record goal_row =
  gr_id :: ident
  gr_athlete_id :: ident
  gr_skill :: string
  gr_text :: string
  gr_is_active :: bool

record drill_frequency_row =
  df_athlete_id :: ident
  df_drill_id :: ident
  df_times_used :: nat

text \<open>
  The requests the store issues, one constructor for each call site of \<open>db\<close>:
  \<open>Select_athletes n\<close> is the select on \<open>athletes\<close> with \<open>archived_at is null\<close> and
  \<open>limit n\<close>; \<open>Select_sessions a\<close> the 50 most recent sessions of athlete \<open>a\<close>;
  \<open>Select_goals a\<close> the goals of \<open>a\<close> with \<open>is_active = true\<close>;
  \<open>Select_drill_frequency a\<close> the 10 most used drills of \<open>a\<close>;
  \<open>Update_goal_text g t\<close> and \<open>Update_goal_is_active g b\<close> the two updates on
  \<open>goals\<close> filtered by \<open>id = g\<close>; \<open>Delete_goal g\<close> the delete filtered by \<open>id = g\<close>.
\<close>

datatype request =
    Select_athletes nat
  | Select_sessions ident
  | Select_goals ident
  | Select_drill_frequency ident
  | Insert_session session_insert
  | Insert_session_drill ident ident
  | Insert_goal goal_insert
  | Update_goal_text ident string
  | Update_goal_is_active ident bool
  | Delete_goal ident

datatype outcome = Accepted | Rejected failure | Faulted failure

fun outcome_of :: "'a reply \<Rightarrow> outcome" where
  "outcome_of (Reply d) = Accepted"
| "outcome_of (Refused e) = Rejected e"
| "outcome_of (Thrown e) = Faulted e"

type_synonym log = "(request \<times> outcome) list"

text \<open>
  The backend is outside the program. A gateway is any family of operations over a
  state \<open>'w\<close> of the outside world; the store is modelled against all of them. Each
  operation stands for one \<open>await db. ...\<close> and returns the reply and the new world.
\<close>

record 'w gateway =
  select_athletes :: "nat \<Rightarrow> 'w \<Rightarrow> athlete_row list reply \<times> 'w"
  select_sessions :: "ident \<Rightarrow> 'w \<Rightarrow> session_row list reply \<times> 'w"
  select_goals :: "ident \<Rightarrow> 'w \<Rightarrow> goal_row list reply \<times> 'w"
  select_drill_frequency :: "ident \<Rightarrow> 'w \<Rightarrow> drill_frequency_row list reply \<times> 'w"
  insert_session :: "session_insert \<Rightarrow> 'w \<Rightarrow> session_row reply \<times> 'w"
  insert_session_drill :: "ident \<Rightarrow> ident \<Rightarrow> 'w \<Rightarrow> unit reply \<times> 'w"
  insert_goal :: "goal_insert \<Rightarrow> 'w \<Rightarrow> goal_row reply \<times> 'w"
  update_goal_text :: "ident \<Rightarrow> string \<Rightarrow> 'w \<Rightarrow> unit reply \<times> 'w"
  update_goal_is_active :: "ident \<Rightarrow> bool \<Rightarrow> 'w \<Rightarrow> unit reply \<times> 'w"
  delete_goal :: "ident \<Rightarrow> 'w \<Rightarrow> unit reply \<times> 'w"


section \<open>Athlete, session and goal store\<close>

text \<open>
  The component \<open>PracticeTrackerApp\<close> of \<open>App.jsx\<close>. The repository holds two
  copies of the file; \<open>fetchProfile\<close>, \<open>handleQuickLog\<close> and \<open>saveGoal\<close> are the
  same in both up to comments and the bearer token, and the load is modelled from the
  later copy, which reads the athlete limit from the tier, remembers the selected
  athlete and has the athlete switch.

  Every handler is a closure of one render: it reads the state and the value of the
  derived constant \<open>isPro\<close> of that render. The model passes that value as the
  argument \<open>pro\<close>.
\<close>

text \<open>The display shape of a session and the local shape of a goal.\<close>

record session =
  s_id :: ident
  s_date :: string
  s_duration :: int
  s_focus :: "string list"
  s_note :: string
  s_reflection :: string

record goal =
  g_id :: ident
  g_text :: string
  g_isActive :: bool

text \<open>
  The state of \<open>PracticeTrackerApp\<close>. \<open>goals\<close> is a JavaScript object keyed by skill:
  an association list in insertion order with distinct keys, a key bound to \<open>null\<close>
  holding \<open>None\<close>. The value of \<open>localStorage\<close> under \<open>selectedAthleteId\<close> is passed
  beside the state.
\<close>

record store =
  athlete :: "athlete_row option"
  athletes :: "athlete_row list"
  sessions :: "session list"
  goals :: "(string \<times> goal option) list"
  drillFrequency :: "drill_frequency_row list"
  loading :: bool
  error :: "string option"
  showQuickLog :: bool
  showGoalEdit :: "string option"
  showAddAthlete :: bool
  saving :: bool
  logDate :: string
  logDuration :: int
  logFocus :: "string list"
  logNote :: string
  logReflection :: string
  logDrills :: "string list"
  editGoalText :: string

definition FOCUS_OPTIONS :: "string list" where
  "FOCUS_OPTIONS = [''hitting'', ''pitching'', ''fielding'', ''conditioning'']"

text \<open>\<open>x || ''\<close> on a string or \<open>null\<close>, and \<open>x || null\<close> on a string.\<close>

definition or_empty :: "string option \<Rightarrow> string" where
  "or_empty v = (case v of None \<Rightarrow> [] | Some s \<Rightarrow> s)"

definition or_null :: "string \<Rightarrow> string option" where
  "or_null s = (if s = [] then None else Some s)"

text \<open>The mapping of a backend row to the display shape, as both call sites write it.\<close>

definition display_session :: "session_row \<Rightarrow> session" where
  "display_session s =
     \<lparr>s_id = sr_id s, s_date = sr_date s, s_duration = sr_duration_minutes s,
      s_focus = sr_focus s, s_note = or_empty (sr_note s),
      s_reflection = or_empty (sr_reflection s)\<rparr>"

text \<open>
  \<^verbatim>\<open>const goalsMap = {};
  FOCUS_OPTIONS.forEach(opt => { goalsMap[opt.id] = null; });
  (goalData || []).forEach(g => {
    goalsMap[g.skill] = { id: g.id, text: g.text, isActive: true };
  });\<close>
\<close>

definition goalsMap :: "goal_row list \<Rightarrow> (string \<times> goal option) list" where
  "goalsMap goalData =
     foldl (\<lambda>m g. AList.update (gr_skill g)
                     (Some \<lparr>g_id = gr_id g, g_text = gr_text g, g_isActive = True\<rparr>) m)
       (foldl (\<lambda>m k. AList.update k None m) [] FOCUS_OPTIONS)
       goalData"

text \<open>\<open>goals[skill]\<close>, with \<open>undefined\<close> and \<open>null\<close> both read as no goal.\<close>

definition goal_at :: "(string \<times> goal option) list \<Rightarrow> string \<Rightarrow> goal option" where
  "goal_at gs skill = (case map_of gs skill of None \<Rightarrow> None | Some g \<Rightarrow> g)"

text \<open>\<open>g?.isActive\<close> and \<open>g?.id\<close> as conditions.\<close>

definition is_active :: "goal option \<Rightarrow> bool" where
  "is_active g = (case g of None \<Rightarrow> False | Some x \<Rightarrow> g_isActive x)"

definition has_id :: "goal option \<Rightarrow> bool" where
  "has_id g = (case g of None \<Rightarrow> False | Some x \<Rightarrow> g_id x \<noteq> [])"

text \<open>What the \<open>catch\<close> blocks do: \<open>setError(err.message)\<close>.\<close>

definition caught :: "failure \<Rightarrow> store \<Rightarrow> store" where
  "caught err st = st\<lparr>error := Some (message err)\<rparr>"

subsection \<open>Loading\<close>

text \<open>
  \<open>loadAthleteData(athleteId)\<close>: three selects in sequence inside one \<open>try\<close>; the
  \<open>finally\<close> block ends the loading state. The error of the drill-frequency select is
  not read, so a refused select stores \<open>drillData || []\<close>, the empty list.
\<close>

definition loadAthleteData ::
  "'w gateway \<Rightarrow> bool \<Rightarrow> ident \<Rightarrow> store \<Rightarrow> 'w \<Rightarrow> store \<times> 'w \<times> log" where
  "loadAthleteData gw pro athleteId st w =
     (case select_sessions gw athleteId w of (r1, w1) \<Rightarrow>
      (case r1 of
         Refused e \<Rightarrow>
           ((caught e st)\<lparr>loading := False\<rparr>, w1, [(Select_sessions athleteId, Rejected e)])
       | Thrown e \<Rightarrow>
           ((caught e st)\<lparr>loading := False\<rparr>, w1, [(Select_sessions athleteId, Faulted e)])
       | Reply sessionData \<Rightarrow>
           (let st1 = st\<lparr>sessions := map display_session sessionData\<rparr> in
            case select_goals gw athleteId w1 of (r2, w2) \<Rightarrow>
            (case r2 of
               Refused e \<Rightarrow>
                 ((caught e st1)\<lparr>loading := False\<rparr>, w2,
                  [(Select_sessions athleteId, Accepted), (Select_goals athleteId, Rejected e)])
             | Thrown e \<Rightarrow>
                 ((caught e st1)\<lparr>loading := False\<rparr>, w2,
                  [(Select_sessions athleteId, Accepted), (Select_goals athleteId, Faulted e)])
             | Reply goalData \<Rightarrow>
                 (let st2 = st1\<lparr>goals := goalsMap goalData\<rparr> in
                  if pro then
                    (case select_drill_frequency gw athleteId w2 of (r3, w3) \<Rightarrow>
                     (case r3 of
                        Reply drillData \<Rightarrow>
                          (st2\<lparr>drillFrequency := drillData, loading := False\<rparr>, w3,
                           [(Select_sessions athleteId, Accepted),
                            (Select_goals athleteId, Accepted),
                            (Select_drill_frequency athleteId, Accepted)])
                      | Refused e \<Rightarrow>
                          (st2\<lparr>drillFrequency := [], loading := False\<rparr>, w3,
                           [(Select_sessions athleteId, Accepted),
                            (Select_goals athleteId, Accepted),
                            (Select_drill_frequency athleteId, Rejected e)])
                      | Thrown e \<Rightarrow>
                          ((caught e st2)\<lparr>loading := False\<rparr>, w3,
                           [(Select_sessions athleteId, Accepted),
                            (Select_goals athleteId, Accepted),
                            (Select_drill_frequency athleteId, Faulted e)])))
                  else
                    (st2\<lparr>loading := False\<rparr>, w2,
                     [(Select_sessions athleteId, Accepted),
                      (Select_goals athleteId, Accepted)]))))))"

text \<open>
  \<^verbatim>\<open>const savedAthleteId = localStorage.getItem('selectedAthleteId');
  const savedAthlete = savedAthleteId
    ? athleteData.find(a => a.id === savedAthleteId)
    : null;
  const currentAthlete = savedAthlete || athleteData[0];\<close>
  on a roster with first element \<open>first\<close>.
\<close>

definition currentAthlete :: "string option \<Rightarrow> athlete_row \<Rightarrow> athlete_row list \<Rightarrow> athlete_row" where
  "currentAthlete savedAthleteId first athleteData =
     (case (if truthy_str savedAthleteId
            then find (\<lambda>a. Some (a_id a) = savedAthleteId) athleteData
            else None) of
        Some savedAthlete \<Rightarrow> savedAthlete
      | None \<Rightarrow> first)"

text \<open>
  \<open>loadData\<close>. The fourth component of the result is the new value of
  \<open>localStorage\<close> under \<open>selectedAthleteId\<close>.
\<close>

definition loadData ::
  "'w gateway \<Rightarrow> bool \<Rightarrow> store \<Rightarrow> string option \<Rightarrow> 'w
     \<Rightarrow> store \<times> string option \<times> 'w \<times> log" where
  "loadData gw pro st ls w =
     (let st0 = st\<lparr>loading := True, error := None\<rparr>;
          lim = (if pro then 10 else 1)
      in case select_athletes gw lim w of (r, w1) \<Rightarrow>
      (case r of
         Refused e \<Rightarrow>
           ((caught e st0)\<lparr>loading := False\<rparr>, ls, w1, [(Select_athletes lim, Rejected e)])
       | Thrown e \<Rightarrow>
           ((caught e st0)\<lparr>loading := False\<rparr>, ls, w1, [(Select_athletes lim, Faulted e)])
       | Reply athleteData \<Rightarrow>
           (case athleteData of
              [] \<Rightarrow>
                (st0\<lparr>showAddAthlete := True, loading := False\<rparr>, ls, w1,
                 [(Select_athletes lim, Accepted)])
            | first # others \<Rightarrow>
                (let cur = currentAthlete ls first athleteData;
                     st1 = st0\<lparr>athletes := athleteData, athlete := Some cur\<rparr>
                 in case loadAthleteData gw pro (a_id cur) st1 w1 of (st2, w2, lg) \<Rightarrow>
                      (st2, Some (a_id cur), w2, (Select_athletes lim, Accepted) # lg)))))"

text \<open>\<open>handleSelectAthlete(selectedAthlete)\<close>\<close>

definition handleSelectAthlete ::
  "'w gateway \<Rightarrow> bool \<Rightarrow> athlete_row \<Rightarrow> store \<Rightarrow> string option \<Rightarrow> 'w
     \<Rightarrow> store \<times> string option \<times> 'w \<times> log" where
  "handleSelectAthlete gw pro selectedAthlete st ls w =
     (case loadAthleteData gw pro (a_id selectedAthlete)
             (st\<lparr>athlete := Some selectedAthlete, loading := True\<rparr>) w of
        (st1, w1, lg) \<Rightarrow> (st1, Some (a_id selectedAthlete), w1, lg))"

subsection \<open>Logging a practice\<close>

text \<open>
  The loop \<open>for (const drillId of logDrills)\<close>: one insert per drill, each awaited
  before the next; the first reply with an error, or the first fault, is thrown and
  ends the loop. The result is the thrown failure, if any.
\<close>

fun insert_drills :: "'w gateway \<Rightarrow> ident \<Rightarrow> ident list \<Rightarrow> 'w \<Rightarrow> failure option \<times> 'w \<times> log" where
  "insert_drills gw sid [] w = (None, w, [])"
| "insert_drills gw sid (drillId # rest) w =
     (case insert_session_drill gw sid drillId w of (r, w1) \<Rightarrow>
      (case r of
         Refused e \<Rightarrow> (Some e, w1, [(Insert_session_drill sid drillId, Rejected e)])
       | Thrown e \<Rightarrow> (Some e, w1, [(Insert_session_drill sid drillId, Faulted e)])
       | Reply u \<Rightarrow>
           (case insert_drills gw sid rest w1 of (res, w2, lg) \<Rightarrow>
              (res, w2, (Insert_session_drill sid drillId, Accepted) # lg))))"

text \<open>The object \<open>handleQuickLog\<close> sends for the athlete \<open>a\<close>.\<close>

definition new_session :: "athlete_row \<Rightarrow> store \<Rightarrow> session_insert" where
  "new_session a st =
     \<lparr>si_athlete_id = a_id a, si_date = logDate st, si_duration_minutes = logDuration st,
      si_focus = logFocus st, si_note = or_null (logNote st),
      si_reflection = or_null (logReflection st)\<rparr>"

text \<open>
  \<open>handleQuickLog\<close>. \<open>today\<close> is \<open>new Date().toISOString().split('T')[0]\<close> at the
  moment the form is reset.
\<close>

definition handleQuickLog ::
  "'w gateway \<Rightarrow> bool \<Rightarrow> string \<Rightarrow> store \<Rightarrow> 'w \<Rightarrow> store \<times> 'w \<times> log" where
  "handleQuickLog gw pro today st w =
     (if logFocus st = [] then (st, w, [])
      else case athlete st of
        None \<Rightarrow> (st, w, [])
      | Some a \<Rightarrow>
          (let st0 = st\<lparr>saving := True, error := None\<rparr>;
               row = new_session a st
           in case insert_session gw row w of (r, w1) \<Rightarrow>
           (case r of
              Refused e \<Rightarrow>
                ((caught e st0)\<lparr>saving := False\<rparr>, w1, [(Insert_session row, Rejected e)])
            | Thrown e \<Rightarrow>
                ((caught e st0)\<lparr>saving := False\<rparr>, w1, [(Insert_session row, Faulted e)])
            | Reply newSession \<Rightarrow>
                (case (if pro \<and> logDrills st \<noteq> []
                       then insert_drills gw (sr_id newSession) (logDrills st) w1
                       else (None, w1, [])) of
                   (Some e, w2, lg) \<Rightarrow>
                     ((caught e st0)\<lparr>saving := False\<rparr>, w2, (Insert_session row, Accepted) # lg)
                 | (None, w2, lg) \<Rightarrow>
                     (st0\<lparr>sessions := display_session newSession # sessions st0,
                          logDate := today, logDuration := 30, logFocus := [],
                          logNote := [], logReflection := [], logDrills := [],
                          showQuickLog := False, saving := False\<rparr>,
                      w2, (Insert_session row, Accepted) # lg)))))"

text \<open>\<open>toggleFocus\<close>, \<open>toggleDrill\<close>\<close>

definition toggle :: "string \<Rightarrow> string list \<Rightarrow> string list" where
  "toggle x prev = (if x \<in> set prev then filter (\<lambda>f. f \<noteq> x) prev else prev @ [x])"

definition toggleFocus :: "string \<Rightarrow> store \<Rightarrow> store" where
  "toggleFocus x st = st\<lparr>logFocus := toggle x (logFocus st)\<rparr>"

definition toggleDrill :: "string \<Rightarrow> store \<Rightarrow> store" where
  "toggleDrill drillId st = st\<lparr>logDrills := toggle drillId (logDrills st)\<rparr>"

subsection \<open>Saving a goal\<close>

text \<open>
  \<^verbatim>\<open>const otherActiveGoals = Object.entries(goals)
    .filter(([k, g]) => k !== skill && g?.isActive);\<close>
\<close>

definition otherActiveGoals :: "(string \<times> goal option) list \<Rightarrow> string \<Rightarrow> (string \<times> goal option) list" where
  "otherActiveGoals gs skill = filter (\<lambda>(k, g). k \<noteq> skill \<and> is_active g) gs"

text \<open>
  The loop over \<open>otherActiveGoals\<close>: one update per goal that has an id, each awaited
  before the next. The reply is not read; only a fault of the call itself leaves the
  loop.
\<close>

fun deactivate :: "'w gateway \<Rightarrow> (string \<times> goal option) list \<Rightarrow> 'w \<Rightarrow> failure option \<times> 'w \<times> log" where
  "deactivate gw [] w = (None, w, [])"
| "deactivate gw ((k, g) # rest) w =
     (case g of
        None \<Rightarrow> deactivate gw rest w
      | Some x \<Rightarrow>
          (if g_id x = [] then deactivate gw rest w
           else case update_goal_is_active gw (g_id x) False w of (r, w1) \<Rightarrow>
             (case r of
                Thrown e \<Rightarrow> (Some e, w1, [(Update_goal_is_active (g_id x) False, Faulted e)])
              | Refused e \<Rightarrow>
                  (case deactivate gw rest w1 of (res, w2, lg) \<Rightarrow>
                     (res, w2, (Update_goal_is_active (g_id x) False, Rejected e) # lg))
              | Reply u \<Rightarrow>
                  (case deactivate gw rest w1 of (res, w2, lg) \<Rightarrow>
                     (res, w2, (Update_goal_is_active (g_id x) False, Accepted) # lg)))))"

text \<open>
  \<^verbatim>\<open>Object.keys(updatedGoals).forEach(k => {
    if (k !== skill && updatedGoals[k]) {
      updatedGoals[k] = { ...updatedGoals[k], isActive: false };
    }
  });\<close>
\<close>

definition clear_others :: "string \<Rightarrow> (string \<times> goal option) list \<Rightarrow> (string \<times> goal option) list" where
  "clear_others skill gs =
     map (\<lambda>(k, g). if k \<noteq> skill
                    then (k, (case g of None \<Rightarrow> None | Some x \<Rightarrow> Some (x\<lparr>g_isActive := False\<rparr>)))
                    else (k, g)) gs"

text \<open>The end of the \<open>try\<close> block and the \<open>finally\<close> block of \<open>saveGoal\<close>.\<close>

definition goal_saved :: "store \<Rightarrow> store" where
  "goal_saved st = st\<lparr>showGoalEdit := None, editGoalText := [], saving := False\<rparr>"

definition new_goal :: "athlete_row \<Rightarrow> string \<Rightarrow> store \<Rightarrow> goal_insert" where
  "new_goal a skill st =
     \<lparr>gi_athlete_id = a_id a, gi_skill = skill, gi_text = editGoalText st, gi_is_active = True\<rparr>"

text \<open>\<open>saveGoal(skill)\<close>\<close>

definition saveGoal ::
  "'w gateway \<Rightarrow> bool \<Rightarrow> string \<Rightarrow> store \<Rightarrow> 'w \<Rightarrow> store \<times> 'w \<times> log" where
  "saveGoal gw pro skill st w =
     (case athlete st of
        None \<Rightarrow> (st, w, [])
      | Some a \<Rightarrow>
          (let st0 = st\<lparr>saving := True, error := None\<rparr>;
               existingGoal = goal_at (goals st) skill
           in
           if editGoalText st = [] then
             (if has_id existingGoal then
                (case delete_goal gw (g_id (the existingGoal)) w of (r, w1) \<Rightarrow>
                 (case r of
                    Refused e \<Rightarrow>
                      ((caught e st0)\<lparr>saving := False\<rparr>, w1,
                       [(Delete_goal (g_id (the existingGoal)), Rejected e)])
                  | Thrown e \<Rightarrow>
                      ((caught e st0)\<lparr>saving := False\<rparr>, w1,
                       [(Delete_goal (g_id (the existingGoal)), Faulted e)])
                  | Reply u \<Rightarrow>
                      (goal_saved (st0\<lparr>goals := AList.update skill None (goals st0)\<rparr>), w1,
                       [(Delete_goal (g_id (the existingGoal)), Accepted)])))
              else
                (goal_saved (st0\<lparr>goals := AList.update skill None (goals st0)\<rparr>), w, []))
           else if has_id existingGoal then
             (case update_goal_text gw (g_id (the existingGoal)) (editGoalText st) w of (r, w1) \<Rightarrow>
              (case r of
                 Refused e \<Rightarrow>
                   ((caught e st0)\<lparr>saving := False\<rparr>, w1,
                    [(Update_goal_text (g_id (the existingGoal)) (editGoalText st), Rejected e)])
               | Thrown e \<Rightarrow>
                   ((caught e st0)\<lparr>saving := False\<rparr>, w1,
                    [(Update_goal_text (g_id (the existingGoal)) (editGoalText st), Faulted e)])
               | Reply u \<Rightarrow>
                   (goal_saved
                      (st0\<lparr>goals := AList.update skill
                                      (Some ((the existingGoal)\<lparr>g_text := editGoalText st\<rparr>))
                                      (goals st0)\<rparr>), w1,
                    [(Update_goal_text (g_id (the existingGoal)) (editGoalText st), Accepted)])))
           else
             (case (if \<not> pro then deactivate gw (otherActiveGoals (goals st) skill) w
                    else (None, w, [])) of
                (Some e, w1, lg) \<Rightarrow> ((caught e st0)\<lparr>saving := False\<rparr>, w1, lg)
              | (None, w1, lg) \<Rightarrow>
                  (case insert_goal gw (new_goal a skill st) w1 of (r, w2) \<Rightarrow>
                   (case r of
                      Refused e \<Rightarrow>
                        ((caught e st0)\<lparr>saving := False\<rparr>, w2,
                         lg @ [(Insert_goal (new_goal a skill st), Rejected e)])
                    | Thrown e \<Rightarrow>
                        ((caught e st0)\<lparr>saving := False\<rparr>, w2,
                         lg @ [(Insert_goal (new_goal a skill st), Faulted e)])
                    | Reply newGoal \<Rightarrow>
                        (goal_saved
                           (st0\<lparr>goals :=
                                  AList.update skill
                                    (Some \<lparr>g_id = gr_id newGoal, g_text = gr_text newGoal,
                                           g_isActive = True\<rparr>)
                                    (if \<not> pro then clear_others skill (goals st)
                                     else goals st)\<rparr>),
                         w2, lg @ [(Insert_goal (new_goal a skill st), Accepted)]))))))"


subsection \<open>Executions\<close>

text \<open>
  The initial state of the component (\<open>useState\<close> initial values); \<open>today\<close> is the
  date at mount.
\<close>

definition initial_store :: "string \<Rightarrow> store" where
  "initial_store today =
     \<lparr>athlete = None, athletes = [], sessions = [], goals = [], drillFrequency = [],
      loading = True, error = None, showQuickLog = False, showGoalEdit = None,
      showAddAthlete = False, saving = False, logDate = today, logDuration = 30,
      logFocus = [], logNote = [], logReflection = [], logDrills = [], editGoalText = []\<rparr>"

text \<open>
  The user actions on the store: the load, the athlete switch, the two saving
  operations, and the edits of the logging form and of the goal text. An event is an
  action together with what the render that made its handler saw: the profile of the
  auth context, the time \<open>new Date()\<close> at which \<open>isPro\<close> was computed, and the
  date. Each step computes \<open>isPro\<close> from them and runs the handler with it.
\<close>

datatype action =
    LoadData
  | SelectAthlete athlete_row
  | QuickLog
  | SaveGoal string
  | ToggleFocus string
  | ToggleDrill string
  | SetLogDate string
  | SetLogDuration int
  | SetLogNote string
  | SetLogReflection string
  | SetEditGoalText string

record event =
  at_profile :: "profile option"
  at_time :: int
  at_day :: string
  action_of :: action

definition step ::
  "'w gateway \<Rightarrow> (string \<Rightarrow> int option) \<Rightarrow> event \<Rightarrow> store \<times> string option \<times> 'w
     \<Rightarrow> (store \<times> string option \<times> 'w) \<times> log" where
  "step gw Date_parse ev s =
     (case s of (st, ls, w) \<Rightarrow>
      (let pro = isPro Date_parse (at_time ev) (at_profile ev) in
       case action_of ev of
         LoadData \<Rightarrow>
           (case loadData gw pro st ls w of (st1, ls1, w1, lg) \<Rightarrow> ((st1, ls1, w1), lg))
       | SelectAthlete a \<Rightarrow>
           (case handleSelectAthlete gw pro a st ls w of (st1, ls1, w1, lg) \<Rightarrow>
              ((st1, ls1, w1), lg))
       | QuickLog \<Rightarrow>
           (case handleQuickLog gw pro (at_day ev) st w of (st1, w1, lg) \<Rightarrow> ((st1, ls, w1), lg))
       | SaveGoal skill \<Rightarrow>
           (case saveGoal gw pro skill st w of (st1, w1, lg) \<Rightarrow> ((st1, ls, w1), lg))
       | ToggleFocus x \<Rightarrow> ((toggleFocus x st, ls, w), [])
       | ToggleDrill x \<Rightarrow> ((toggleDrill x st, ls, w), [])
       | SetLogDate x \<Rightarrow> ((st\<lparr>logDate := x\<rparr>, ls, w), [])
       | SetLogDuration x \<Rightarrow> ((st\<lparr>logDuration := x\<rparr>, ls, w), [])
       | SetLogNote x \<Rightarrow> ((st\<lparr>logNote := x\<rparr>, ls, w), [])
       | SetLogReflection x \<Rightarrow> ((st\<lparr>logReflection := x\<rparr>, ls, w), [])
       | SetEditGoalText x \<Rightarrow> ((st\<lparr>editGoalText := x\<rparr>, ls, w), [])))"

fun run ::
  "'w gateway \<Rightarrow> (string \<Rightarrow> int option) \<Rightarrow> event list \<Rightarrow> store \<times> string option \<times> 'w
     \<Rightarrow> (store \<times> string option \<times> 'w) \<times> log" where
  "run gw Date_parse [] s = (s, [])"
| "run gw Date_parse (ev # evs) s =
     (case step gw Date_parse ev s of (s1, lg1) \<Rightarrow>
      (case run gw Date_parse evs s1 of (s2, lg2) \<Rightarrow> (s2, lg1 @ lg2)))"

text \<open>The requests that only an entitled account may issue.\<close>

fun free_tier_request :: "request \<Rightarrow> bool" where
  "free_tier_request (Insert_session_drill sid d) = False"
| "free_tier_request (Select_drill_frequency a) = False"
| "free_tier_request (Select_athletes n) = (n = 1)"
| "free_tier_request rq = True"


section \<open>A reference backend\<close>

text \<open>
  A small in-memory backend, one instance of a gateway, on which the store is run on
  concrete inputs. It holds the five collections the store touches. A policy decides,
  from the number of requests served so far and the request, whether the request is
  accepted, refused with an error, or lost to a transport fault; only an accepted
  request changes a collection.
\<close>

record backend =
  b_athletes :: "athlete_row list"
  b_sessions :: "session_row list"
  b_session_drills :: "(ident \<times> ident) list"
  b_goals :: "goal_row list"
  b_drill_frequency :: "drill_frequency_row list"
  b_served :: nat

type_synonym policy = "nat \<Rightarrow> request \<Rightarrow> outcome"

definition serve :: "policy \<Rightarrow> request \<Rightarrow> 'a \<Rightarrow> (backend \<Rightarrow> backend) \<Rightarrow> backend \<Rightarrow> 'a reply \<times> backend" where
  "serve pol rq d change b =
     (case pol (b_served b) rq of
        Accepted \<Rightarrow> (Reply d, (change b)\<lparr>b_served := Suc (b_served b)\<rparr>)
      | Rejected e \<Rightarrow> (Refused e, b\<lparr>b_served := Suc (b_served b)\<rparr>)
      | Faulted e \<Rightarrow> (Thrown e, b\<lparr>b_served := Suc (b_served b)\<rparr>))"

text \<open>A fresh identifier: a prefix and one mark for each row already in the collection.\<close>

definition fresh_id :: "string \<Rightarrow> nat \<Rightarrow> ident" where
  "fresh_id prefix n = prefix @ replicate n (CHR ''+'')"

definition stored_session :: "ident \<Rightarrow> session_insert \<Rightarrow> session_row" where
  "stored_session i r =
     \<lparr>sr_id = i, sr_athlete_id = si_athlete_id r, sr_date = si_date r,
      sr_duration_minutes = si_duration_minutes r, sr_focus = si_focus r,
      sr_note = si_note r, sr_reflection = si_reflection r\<rparr>"

definition stored_goal :: "ident \<Rightarrow> goal_insert \<Rightarrow> goal_row" where
  "stored_goal i r =
     \<lparr>gr_id = i, gr_athlete_id = gi_athlete_id r, gr_skill = gi_skill r,
      gr_text = gi_text r, gr_is_active = gi_is_active r\<rparr>"

definition backend_gateway :: "policy \<Rightarrow> backend gateway" where
  "backend_gateway pol =
     \<lparr>select_athletes = (\<lambda>n b.
        serve pol (Select_athletes n) (take n (b_athletes b)) id b),
      select_sessions = (\<lambda>a b.
        serve pol (Select_sessions a)
          (take 50 (rev (sort_key sr_date (filter (\<lambda>r. sr_athlete_id r = a) (b_sessions b))))) id b),
      select_goals = (\<lambda>a b.
        serve pol (Select_goals a)
          (filter (\<lambda>g. gr_athlete_id g = a \<and> gr_is_active g) (b_goals b)) id b),
      select_drill_frequency = (\<lambda>a b.
        serve pol (Select_drill_frequency a)
          (take 10 (rev (sort_key df_times_used
             (filter (\<lambda>r. df_athlete_id r = a) (b_drill_frequency b))))) id b),
      insert_session = (\<lambda>r b.
        serve pol (Insert_session r)
          (stored_session (fresh_id ''s'' (length (b_sessions b))) r)
          (\<lambda>b. b\<lparr>b_sessions :=
                   b_sessions b @ [stored_session (fresh_id ''s'' (length (b_sessions b))) r]\<rparr>) b),
      insert_session_drill = (\<lambda>sid d b.
        serve pol (Insert_session_drill sid d) ()
          (\<lambda>b. b\<lparr>b_session_drills := b_session_drills b @ [(sid, d)]\<rparr>) b),
      insert_goal = (\<lambda>r b.
        serve pol (Insert_goal r)
          (stored_goal (fresh_id ''g'' (length (b_goals b))) r)
          (\<lambda>b. b\<lparr>b_goals := b_goals b @ [stored_goal (fresh_id ''g'' (length (b_goals b))) r]\<rparr>) b),
      update_goal_text = (\<lambda>i t b.
        serve pol (Update_goal_text i t) ()
          (\<lambda>b. b\<lparr>b_goals := map (\<lambda>g. if gr_id g = i then g\<lparr>gr_text := t\<rparr> else g) (b_goals b)\<rparr>) b),
      update_goal_is_active = (\<lambda>i v b.
        serve pol (Update_goal_is_active i v) ()
          (\<lambda>b. b\<lparr>b_goals := map (\<lambda>g. if gr_id g = i then g\<lparr>gr_is_active := v\<rparr> else g) (b_goals b)\<rparr>) b),
      delete_goal = (\<lambda>i b.
        serve pol (Delete_goal i) ()
          (\<lambda>b. b\<lparr>b_goals := filter (\<lambda>g. gr_id g \<noteq> i) (b_goals b)\<rparr>) b)\<rparr>"

definition empty_backend :: backend where
  "empty_backend =
     \<lparr>b_athletes = [], b_sessions = [], b_session_drills = [], b_goals = [],
      b_drill_frequency = [], b_served = 0\<rparr>"


section \<open>Concrete inputs\<close>

text \<open>
  Two athletes, a logging form filled in with two drills, a goal editor opened on a
  skill without a goal while another skill has an active goal, three policies of the
  reference backend, a session of a free-tier account, and a goal editor opened while
  two other skills have active goals and a third an inactive one (an account that was
  entitled before).
\<close>

definition mia :: athlete_row where
  "mia = \<lparr>a_id = ''a1'', a_name = ''Mia''\<rparr>"

definition logging_store :: store where
  "logging_store =
     (initial_store ''2025-01-10'')
       \<lparr>athlete := Some mia, loading := False, showQuickLog := True,
        logFocus := [''hitting''], logNote := ''good day'',
        logDrills := [''tee-work'', ''soft-toss'']\<rparr>"

definition refuse_soft_toss :: policy where
  "refuse_soft_toss n rq =
     (case rq of
        Insert_session_drill sid d \<Rightarrow>
          (if d = ''soft-toss'' then Rejected (Failure ''permission denied'') else Accepted)
      | _ \<Rightarrow> Accepted)"

definition accept_all :: policy where
  "accept_all n rq = Accepted"

definition goal_store :: store where
  "goal_store =
     (initial_store ''2025-01-10'')
       \<lparr>athlete := Some mia, loading := False,
        goals := [(''hitting'', Some \<lparr>g_id = ''g'', g_text = ''line drives'', g_isActive = True\<rparr>),
                  (''pitching'', None), (''fielding'', None), (''conditioning'', None)],
        showGoalEdit := Some ''pitching'', editGoalText := ''hit the strike zone''\<rparr>"

definition goal_backend :: backend where
  "goal_backend =
     empty_backend
       \<lparr>b_athletes := [mia],
        b_goals := [\<lparr>gr_id = ''g'', gr_athlete_id = ''a1'', gr_skill = ''hitting'',
                    gr_text = ''line drives'', gr_is_active = True\<rparr>]\<rparr>"



definition zoe :: athlete_row where
  "zoe = \<lparr>a_id = ''a2'', a_name = ''Zoe''\<rparr>"

definition roster_backend :: backend where
  "roster_backend =
     empty_backend
       \<lparr>b_athletes := [mia, zoe],
        b_drill_frequency := [\<lparr>df_athlete_id = ''a1'', df_drill_id = ''tee-work'', df_times_used = 3\<rparr>]\<rparr>"

definition free_event :: "action \<Rightarrow> event" where
  "free_event x =
     \<lparr>at_profile = Some (default_profile ''u1''), at_time = 1700000000000,
      at_day = ''2025-01-10'', action_of = x\<rparr>"

definition free_session :: "event list" where
  "free_session =
     map free_event [LoadData, ToggleFocus ''hitting'', ToggleDrill ''tee-work'', QuickLog]"

definition no_dates :: "string \<Rightarrow> int option" where
  "no_dates s = None"

definition three_goal_store :: store where
  "three_goal_store =
     (initial_store ''2025-01-10'')
       \<lparr>athlete := Some mia, loading := False,
        goals := [(''hitting'', Some \<lparr>g_id = ''g1'', g_text = ''line drives'', g_isActive = True\<rparr>),
                  (''pitching'', None),
                  (''fielding'', Some \<lparr>g_id = ''g2'', g_text = ''clean backhand'', g_isActive = True\<rparr>),
                  (''conditioning'', Some \<lparr>g_id = ''g3'', g_text = ''faster sprints'', g_isActive = False\<rparr>)],
        showGoalEdit := Some ''pitching'', editGoalText := ''hit the strike zone''\<rparr>"

definition three_goal_backend :: backend where
  "three_goal_backend =
     empty_backend
       \<lparr>b_athletes := [mia],
        b_goals := [\<lparr>gr_id = ''g1'', gr_athlete_id = ''a1'', gr_skill = ''hitting'',
                    gr_text = ''line drives'', gr_is_active = True\<rparr>,
                   \<lparr>gr_id = ''g2'', gr_athlete_id = ''a1'', gr_skill = ''fielding'',
                    gr_text = ''clean backhand'', gr_is_active = True\<rparr>,
                   \<lparr>gr_id = ''g3'', gr_athlete_id = ''a1'', gr_skill = ''conditioning'',
                    gr_text = ''faster sprints'', gr_is_active = False\<rparr>]\<rparr>"

section \<open>Properties of the tier policy\<close>

lemma isPro_None: "isPro Date_parse now None = False"
  by (simp add: isPro_def)

text \<open>
  C1. The entitlement computed by the program is the specification's pure function: for
  every profile it is true exactly when \<open>is_pro\<close> is true and the expiry is either
  absent (\<open>null\<close>, missing or the empty string, which the test \<open>!x\<close> of the code
  does not tell apart) or strictly later than the current time; it is false in every
  other case, an expiry that does not parse as a date included, and false while no
  profile has been fetched.
\<close>

theorem isPro_is_isEntitled:
  "isPro Date_parse now prof =
     (case prof of None \<Rightarrow> False | Some p \<Rightarrow> isEntitled Date_parse now p)"
  by (auto simp: isPro_def isEntitled_def truthy_flag_def truthy_str_def date_after_def
        expiry_absent_def expiry_later_def split: option.splits)

theorem isPro_is_isEntitled_witness:
  "isPro (\<lambda>s. if s = ''2030-01-01'' then Some 1893456000000 else None) 1700000000000
     (Some \<lparr>p_id = Some ''u1'', is_pro = Some True, pro_expires_at = Some ''2030-01-01''\<rparr>)
   \<and> \<not> isPro (\<lambda>s. if s = ''2020-01-01'' then Some 1577836800000 else None) 1700000000000
     (Some \<lparr>p_id = Some ''u1'', is_pro = Some True, pro_expires_at = Some ''2020-01-01''\<rparr>)
   \<and> isPro (\<lambda>s. None) 1700000000000
     (Some \<lparr>p_id = Some ''u1'', is_pro = Some True, pro_expires_at = None\<rparr>)
   \<and> \<not> isPro (\<lambda>s. None) 1700000000000
     (Some \<lparr>p_id = Some ''u1'', is_pro = None, pro_expires_at = None\<rparr>)"
  by (simp add: isPro_is_isEntitled isEntitled_def expiry_absent_def expiry_later_def)


section \<open>Properties of the profile fetch\<close>

lemma default_profile_free: "\<not> isPro Date_parse now (Some (default_profile userId))"
  by (simp add: isPro_def default_profile_def truthy_flag_def)

text \<open>
  C3, as the specification states it, does not hold: a response with status 500 whose
  body is a non-empty array is a failure in the specification's sense, and the program
  stores the first element of that body as the profile.
\<close>

theorem fetchProfile_non_2xx_counterexample:
  "fetch_failure
     (Response 500 (Array [Some \<lparr>p_id = Some ''u1'', is_pro = Some True, pro_expires_at = None\<rparr>]))
   \<and> profile (fetchProfile ''u1''
       (Response 500 (Array [Some \<lparr>p_id = Some ''u1'', is_pro = Some True, pro_expires_at = None\<rparr>]))
       \<lparr>user = Some ''u1'', profile = None, auth_loading = True\<rparr>)
     \<noteq> Some (default_profile ''u1'')
   \<and> isPro (\<lambda>s. None) 0 (profile (fetchProfile ''u1''
       (Response 500 (Array [Some \<lparr>p_id = Some ''u1'', is_pro = Some True, pro_expires_at = None\<rparr>]))
       \<lparr>user = Some ''u1'', profile = None, auth_loading = True\<rparr>))"
  by (simp add: fetch_failure_def response_ok_def fetchProfile_def default_profile_def
        isPro_def truthy_flag_def truthy_str_def)

text \<open>
  C3, amended. \<open>fetchProfile\<close> always returns a state and never an error. Whenever the
  request rejects (network failure, abort after 5 seconds), the body is not JSON, or the
  JSON body is not a non-empty array, the profile becomes the default
  \<open>{id: userId, is_pro: false}\<close>, loading ends, and the account is on the free tier.
  The status is not consulted: a non-2xx response gives the default through its body.
\<close>

theorem fetchProfile_fail_safe:
  assumes "no_profile_row r"
  shows "fetchProfile userId r a = a\<lparr>profile := Some (default_profile userId), auth_loading := False\<rparr>
       \<and> \<not> isPro Date_parse now (profile (fetchProfile userId r a))"
proof -
  from assms
  have eq: "fetchProfile userId r a = a\<lparr>profile := Some (default_profile userId), auth_loading := False\<rparr>"
    by (auto simp: no_profile_row_def fetchProfile_def
          split: fetched.splits json_body.splits list.splits)
  then show ?thesis
    by (simp add: default_profile_free)
qed

theorem fetchProfile_fail_safe_witness:
  "no_profile_row (Response 500 (Non_array :: profile option json_body))
   \<and> profile (fetchProfile ''u1'' (Response 500 Non_array)
        \<lparr>user = Some ''u1'', profile = None, auth_loading = True\<rparr>)
     = Some \<lparr>p_id = Some ''u1'', is_pro = Some False, pro_expires_at = None\<rparr>
   \<and> profile (fetchProfile ''u1'' (Fetch_rejected (Failure ''The operation was aborted''))
        \<lparr>user = Some ''u1'', profile = None, auth_loading = True\<rparr>)
     = Some \<lparr>p_id = Some ''u1'', is_pro = Some False, pro_expires_at = None\<rparr>"
proof -
  have h1: "no_profile_row (Response 500 (Non_array :: profile option json_body))"
    by (simp add: no_profile_row_def)
  have h2: "no_profile_row (Fetch_rejected (Failure ''The operation was aborted'') :: profile option fetched)"
    by (simp add: no_profile_row_def)
  show ?thesis
    using h1 fetchProfile_fail_safe [OF h1, of "''u1''" "\<lparr>user = Some ''u1'', profile = None, auth_loading = True\<rparr>"]
      fetchProfile_fail_safe [OF h2, of "''u1''" "\<lparr>user = Some ''u1'', profile = None, auth_loading = True\<rparr>"]
    by (simp add: default_profile_def)
qed


section \<open>Properties of practice logging\<close>

text \<open>The drill loop: a loop that ends without failure has had every insert accepted.\<close>

lemma insert_drills_ok:
  "insert_drills gw sid ds w = (None, w', lg) \<Longrightarrow>
     lg = map (\<lambda>d. (Insert_session_drill sid d, Accepted)) ds"
  by (induction ds arbitrary: w w' lg) (auto split: prod.splits reply.splits)

text \<open>
  A loop that ends with a failure stopped at some drill: the inserts before it were
  accepted, the insert for it failed, and nothing was issued after it.
\<close>

lemma insert_drills_failed:
  "insert_drills gw sid ds w = (Some e, w', lg) \<Longrightarrow>
     \<exists>k<length ds. \<exists>oc. (oc = Rejected e \<or> oc = Faulted e) \<and>
        lg = map (\<lambda>d. (Insert_session_drill sid d, Accepted)) (take k ds)
             @ [(Insert_session_drill sid (ds ! k), oc)]"
proof (induction ds arbitrary: w w' lg)
  case Nil
  then show ?case by simp
next
  case (Cons d ds)
  obtain r w1 where r: "insert_session_drill gw sid d w = (r, w1)"
    by (cases "insert_session_drill gw sid d w")
  show ?case
  proof (cases r)
    case (Reply u)
    obtain res w2 l2 where rec: "insert_drills gw sid ds w1 = (res, w2, l2)"
      by (cases "insert_drills gw sid ds w1") auto
    with Cons.prems r Reply have res: "res = Some e" and lg: "lg = (Insert_session_drill sid d, Accepted) # l2"
      by auto
    from Cons.IH [OF rec [unfolded res]] obtain k oc where
      k: "k < length ds" "oc = Rejected e \<or> oc = Faulted e"
        "l2 = map (\<lambda>d. (Insert_session_drill sid d, Accepted)) (take k ds) @ [(Insert_session_drill sid (ds ! k), oc)]"
      by blast
    show ?thesis
      apply (rule exI [of _ "Suc k"])
      using k lg by auto
  next
    case (Refused x)
    with Cons.prems r show ?thesis
      by (intro exI [of _ 0]) auto
  next
    case (Thrown x)
    with Cons.prems r show ?thesis
      by (intro exI [of _ 0]) auto
  qed
qed

lemma logging_store_simps:
  "athlete logging_store = Some mia" "logFocus logging_store = [''hitting'']"
  "logDrills logging_store = [''tee-work'', ''soft-toss'']"
  "sessions logging_store = []"
  "new_session mia logging_store =
     \<lparr>si_athlete_id = ''a1'', si_date = ''2025-01-10'', si_duration_minutes = 30,
      si_focus = [''hitting''], si_note = Some ''good day'', si_reflection = None\<rparr>"
  by (simp_all add: logging_store_def initial_store_def new_session_def or_null_def mia_def)

text \<open>
  C4. With entitlement, a current athlete, a focus and drills selected, and the session
  insert accepted, \<open>handleQuickLog\<close> issues the session insert and then the drill
  inserts one after the other, in the order of selection. If all are accepted there is
  one insert for each drill. If one fails, the loop stops there: the requests issued
  are the session insert, the accepted inserts of the drills before it and the failed
  insert, with no request after it (no delete, no retry); the failure's message becomes
  the visible error. What the backend accepted stays.
\<close>

theorem handleQuickLog_partial_failure:
  assumes "athlete st = Some a" and "logFocus st \<noteq> []" and "logDrills st \<noteq> []"
    and "insert_session gw (new_session a st) w = (Reply newSession, w1)"
    and "insert_drills gw (sr_id newSession) (logDrills st) w1 = (res, w2, dl)"
  shows "snd (handleQuickLog gw True today st w) =
           (w2, (Insert_session (new_session a st), Accepted) # dl)
       \<and> (case res of
             None \<Rightarrow>
               dl = map (\<lambda>d. (Insert_session_drill (sr_id newSession) d, Accepted)) (logDrills st)
           | Some e \<Rightarrow>
               fst (handleQuickLog gw True today st w) =
                 st\<lparr>saving := False, error := Some (message e)\<rparr>
               \<and> (\<exists>k<length (logDrills st). \<exists>oc. (oc = Rejected e \<or> oc = Faulted e) \<and>
                     dl = map (\<lambda>d. (Insert_session_drill (sr_id newSession) d, Accepted))
                              (take k (logDrills st))
                          @ [(Insert_session_drill (sr_id newSession) (logDrills st ! k), oc)]))"
proof (cases res)
  case None
  with assms insert_drills_ok [of gw "sr_id newSession" "logDrills st" w1 w2 dl]
  show ?thesis
    by (simp add: handleQuickLog_def)
next
  case (Some e)
  with assms have "handleQuickLog gw True today st w =
           (st\<lparr>saving := False, error := Some (message e)\<rparr>, w2,
            (Insert_session (new_session a st), Accepted) # dl)"
    by (simp add: handleQuickLog_def caught_def)
  moreover from assms(5) Some
  have "\<exists>k<length (logDrills st). \<exists>oc. (oc = Rejected e \<or> oc = Faulted e) \<and>
          dl = map (\<lambda>d. (Insert_session_drill (sr_id newSession) d, Accepted))
                   (take k (logDrills st))
               @ [(Insert_session_drill (sr_id newSession) (logDrills st ! k), oc)]"
    by (auto dest: insert_drills_failed)
  ultimately show ?thesis
    using Some by simp
qed

text \<open>
  On the reference backend with drills \<open>tee-work\<close> and \<open>soft-toss\<close> and the second
  insert refused: the session row and exactly the \<open>tee-work\<close> row exist.
\<close>

theorem handleQuickLog_partial_failure_witness:
  "handleQuickLog (backend_gateway refuse_soft_toss) True ''2025-01-11'' logging_store empty_backend =
     (logging_store\<lparr>saving := False, error := Some ''permission denied''\<rparr>,
      empty_backend
        \<lparr>b_sessions := [\<lparr>sr_id = ''s'', sr_athlete_id = ''a1'', sr_date = ''2025-01-10'',
             sr_duration_minutes = 30, sr_focus = [''hitting''], sr_note = Some ''good day'',
             sr_reflection = None\<rparr>],
         b_session_drills := [(''s'', ''tee-work'')], b_served := 3\<rparr>,
      [(Insert_session (new_session mia logging_store), Accepted),
       (Insert_session_drill ''s'' ''tee-work'', Accepted),
       (Insert_session_drill ''s'' ''soft-toss'', Rejected (Failure ''permission denied''))])"
proof -
  let ?row = "\<lparr>sr_id = ''s'', sr_athlete_id = ''a1'', sr_date = ''2025-01-10'',
             sr_duration_minutes = 30, sr_focus = [''hitting''], sr_note = Some ''good day'',
             sr_reflection = None\<rparr>"
  let ?b1 = "empty_backend\<lparr>b_sessions := [?row], b_served := 1\<rparr>"
  have h1: "athlete logging_store = Some mia" and h2: "logFocus logging_store \<noteq> []"
    by (simp_all add: logging_store_simps)
  have h3: "insert_session (backend_gateway refuse_soft_toss) (new_session mia logging_store) empty_backend
              = (Reply ?row, ?b1)"
    by (simp add: logging_store_simps backend_gateway_def serve_def refuse_soft_toss_def
          empty_backend_def stored_session_def fresh_id_def)
  have h4: "insert_drills (backend_gateway refuse_soft_toss) (sr_id ?row) (logDrills logging_store) ?b1
              = (Some (Failure ''permission denied''),
                 empty_backend\<lparr>b_sessions := [?row], b_session_drills := [(''s'', ''tee-work'')], b_served := 3\<rparr>,
                 [(Insert_session_drill ''s'' ''tee-work'', Accepted),
                  (Insert_session_drill ''s'' ''soft-toss'', Rejected (Failure ''permission denied''))])"
    by (simp add: logging_store_simps backend_gateway_def serve_def refuse_soft_toss_def
          empty_backend_def)
  have h5: "logDrills logging_store \<noteq> []"
    by (simp add: logging_store_simps)
  show ?thesis
    using handleQuickLog_partial_failure [OF h1 h2 h5 h3 h4, of "''2025-01-11''"]
    by (simp add: prod_eq_iff)
qed

text \<open>
  C6. When the session insert and all drill inserts (if any) are accepted,
  \<open>handleQuickLog\<close> puts one new entry at the head of the sessions list, in display
  shape built from the returned row (a \<open>null\<close> note or reflection becoming the empty
  string); it issues the inserts and nothing else, so no select; and every field of the
  logging form is back at its default.
\<close>

theorem handleQuickLog_success:
  assumes "athlete st = Some a" and "logFocus st \<noteq> []"
    and "insert_session gw (new_session a st) w = (Reply newSession, w1)"
    and "pro \<and> logDrills st \<noteq> [] \<Longrightarrow>
           fst (insert_drills gw (sr_id newSession) (logDrills st) w1) = None"
    and "handleQuickLog gw pro today st w = (st', w', lg)"
  shows "sessions st' =
           \<lparr>s_id = sr_id newSession, s_date = sr_date newSession,
            s_duration = sr_duration_minutes newSession, s_focus = sr_focus newSession,
            s_note = (case sr_note newSession of None \<Rightarrow> [] | Some n \<Rightarrow> n),
            s_reflection = (case sr_reflection newSession of None \<Rightarrow> [] | Some n \<Rightarrow> n)\<rparr>
           # sessions st
       \<and> lg = (Insert_session (new_session a st), Accepted)
              # (if pro then map (\<lambda>d. (Insert_session_drill (sr_id newSession) d, Accepted))
                               (logDrills st)
                 else [])
       \<and> logDate st' = today \<and> logDuration st' = 30 \<and> logFocus st' = []
       \<and> logNote st' = [] \<and> logReflection st' = [] \<and> logDrills st' = []
       \<and> error st' = None"
proof (cases "pro \<and> logDrills st \<noteq> []")
  case True
  obtain res w2 dl where loop: "insert_drills gw (sr_id newSession) (logDrills st) w1 = (res, w2, dl)"
    by (cases "insert_drills gw (sr_id newSession) (logDrills st) w1") auto
  with assms(4) True have none: "res = None"
    by simp
  have dl: "dl = map (\<lambda>d. (Insert_session_drill (sr_id newSession) d, Accepted)) (logDrills st)"
    using insert_drills_ok [OF loop [unfolded none]] .
  from True assms(1,2,3,5) loop none dl show ?thesis
    by (auto simp: handleQuickLog_def display_session_def or_empty_def)
next
  case False
  with assms(1,2,3,5) show ?thesis
    by (auto simp: handleQuickLog_def display_session_def or_empty_def)
qed

theorem handleQuickLog_success_witness:
  "sessions (fst (handleQuickLog (backend_gateway accept_all) True ''2025-01-11'' logging_store empty_backend))
     = [\<lparr>s_id = ''s'', s_date = ''2025-01-10'', s_duration = 30, s_focus = [''hitting''],
         s_note = ''good day'', s_reflection = []\<rparr>]
   \<and> snd (snd (handleQuickLog (backend_gateway accept_all) True ''2025-01-11'' logging_store empty_backend))
     = [(Insert_session (new_session mia logging_store), Accepted),
        (Insert_session_drill ''s'' ''tee-work'', Accepted),
        (Insert_session_drill ''s'' ''soft-toss'', Accepted)]
   \<and> logDate (fst (handleQuickLog (backend_gateway accept_all) True ''2025-01-11'' logging_store empty_backend))
     = ''2025-01-11''"
proof -
  let ?row = "\<lparr>sr_id = ''s'', sr_athlete_id = ''a1'', sr_date = ''2025-01-10'',
             sr_duration_minutes = 30, sr_focus = [''hitting''], sr_note = Some ''good day'',
             sr_reflection = None\<rparr>"
  let ?b1 = "empty_backend\<lparr>b_sessions := [?row], b_served := 1\<rparr>"
  let ?b2 = "empty_backend\<lparr>b_sessions := [?row],
               b_session_drills := [(''s'', ''tee-work''), (''s'', ''soft-toss'')], b_served := 3\<rparr>"
  let ?dl = "[(Insert_session_drill ''s'' ''tee-work'', Accepted),
              (Insert_session_drill ''s'' ''soft-toss'', Accepted)]"
  obtain st' w' lg where run:
    "handleQuickLog (backend_gateway accept_all) True ''2025-01-11'' logging_store empty_backend = (st', w', lg)"
    by (cases "handleQuickLog (backend_gateway accept_all) True ''2025-01-11'' logging_store empty_backend")
  have h1: "athlete logging_store = Some mia" and h2: "logFocus logging_store \<noteq> []"
    by (simp_all add: logging_store_simps)
  have h3: "insert_session (backend_gateway accept_all) (new_session mia logging_store) empty_backend
              = (Reply ?row, ?b1)"
    by (simp add: logging_store_simps backend_gateway_def serve_def accept_all_def
          empty_backend_def stored_session_def fresh_id_def)
  have h4: "insert_drills (backend_gateway accept_all) (sr_id ?row) (logDrills logging_store) ?b1
              = (None, ?b2, ?dl)"
    by (simp add: logging_store_simps backend_gateway_def serve_def accept_all_def empty_backend_def)
  have h5: "True \<and> logDrills logging_store \<noteq> [] \<Longrightarrow>
      fst (insert_drills (backend_gateway accept_all) (sr_id ?row) (logDrills logging_store) ?b1) = None"
    using h4 by simp
  show ?thesis
    using handleQuickLog_success [OF h1 h2 h3 h5 run] run
    by (simp add: logging_store_simps)
qed

text \<open>
  C10. When a drill insert fails after the session insert was accepted, the sessions
  list and the logging form are left as they were, and the form stays open, although
  the session insert was accepted by the backend; the failure's message is the visible
  error.
\<close>

theorem handleQuickLog_drill_failure_local_state:
  assumes "athlete st = Some a" and "logFocus st \<noteq> []"
    and "insert_session gw (new_session a st) w = (Reply newSession, w1)"
    and "insert_drills gw (sr_id newSession) (logDrills st) w1 = (Some e, w2, dl)"
    and "handleQuickLog gw True today st w = (st', w', lg)"
  shows "sessions st' = sessions st
       \<and> logDate st' = logDate st \<and> logDuration st' = logDuration st
       \<and> logFocus st' = logFocus st \<and> logNote st' = logNote st
       \<and> logReflection st' = logReflection st \<and> logDrills st' = logDrills st
       \<and> showQuickLog st' = showQuickLog st
       \<and> hd lg = (Insert_session (new_session a st), Accepted)
       \<and> error st' = Some (message e)"
proof -
  from assms(4) have ne: "logDrills st \<noteq> []"
    by (cases "logDrills st") auto
  with assms show ?thesis
    by (auto simp: handleQuickLog_def caught_def)
qed

theorem handleQuickLog_drill_failure_local_state_witness:
  "sessions (fst (handleQuickLog (backend_gateway refuse_soft_toss) True ''2025-01-11'' logging_store empty_backend)) = []
   \<and> b_sessions (fst (snd (handleQuickLog (backend_gateway refuse_soft_toss) True ''2025-01-11'' logging_store empty_backend)))
     = [\<lparr>sr_id = ''s'', sr_athlete_id = ''a1'', sr_date = ''2025-01-10'',
         sr_duration_minutes = 30, sr_focus = [''hitting''], sr_note = Some ''good day'',
         sr_reflection = None\<rparr>]
   \<and> logFocus (fst (handleQuickLog (backend_gateway refuse_soft_toss) True ''2025-01-11'' logging_store empty_backend))
     = [''hitting'']"
proof -
  let ?row = "\<lparr>sr_id = ''s'', sr_athlete_id = ''a1'', sr_date = ''2025-01-10'',
             sr_duration_minutes = 30, sr_focus = [''hitting''], sr_note = Some ''good day'',
             sr_reflection = None\<rparr>"
  let ?b1 = "empty_backend\<lparr>b_sessions := [?row], b_served := 1\<rparr>"
  let ?b2 = "empty_backend\<lparr>b_sessions := [?row], b_session_drills := [(''s'', ''tee-work'')], b_served := 3\<rparr>"
  obtain st' w' lg where run:
    "handleQuickLog (backend_gateway refuse_soft_toss) True ''2025-01-11'' logging_store empty_backend = (st', w', lg)"
    by (cases "handleQuickLog (backend_gateway refuse_soft_toss) True ''2025-01-11'' logging_store empty_backend")
  have h1: "athlete logging_store = Some mia" and h2: "logFocus logging_store \<noteq> []"
    by (simp_all add: logging_store_simps)
  have h3: "insert_session (backend_gateway refuse_soft_toss) (new_session mia logging_store) empty_backend
              = (Reply ?row, ?b1)"
    by (simp add: logging_store_simps backend_gateway_def serve_def refuse_soft_toss_def
          empty_backend_def stored_session_def fresh_id_def)
  have h4: "insert_drills (backend_gateway refuse_soft_toss) (sr_id ?row) (logDrills logging_store) ?b1
              = (Some (Failure ''permission denied''), ?b2,
                 [(Insert_session_drill ''s'' ''tee-work'', Accepted),
                  (Insert_session_drill ''s'' ''soft-toss'', Rejected (Failure ''permission denied''))])"
    by (simp add: logging_store_simps backend_gateway_def serve_def refuse_soft_toss_def
          empty_backend_def)
  have w': "w' = ?b2"
    using run h3 h4 by (simp add: handleQuickLog_def logging_store_simps)
  show ?thesis
    using handleQuickLog_drill_failure_local_state [OF h1 h2 h3 h4 run] run w'
    by (simp add: logging_store_def initial_store_def empty_backend_def)
qed


section \<open>Properties of goal saving\<close>

lemma deactivate_free: "deactivate gw gs w = (res, w', lg) \<Longrightarrow> \<forall>x\<in>set lg. free_tier_request (fst x)"
proof (induction gs arbitrary: w res w' lg)
  case Nil
  then show ?case by simp
next
  case (Cons p gs)
  obtain k g where p: "p = (k, g)" by (cases p)
  from Cons.prems Cons.IH show ?case
    unfolding p
    by (fastforce split: prod.splits reply.splits option.splits if_splits)
qed

lemma deactivate_all:
  "deactivate gw gs w = (None, w', lg) \<Longrightarrow> \<forall>x\<in>set gs. has_id (snd x) \<Longrightarrow>
     map fst lg = map (\<lambda>(k, g). Update_goal_is_active (g_id (the g)) False) gs"
proof (induction gs arbitrary: w w' lg)
  case Nil
  then show ?case by simp
next
  case (Cons p gs)
  obtain k g where p: "p = (k, g)" by (cases p)
  from Cons.prems Cons.IH show ?case
    unfolding p
    by (fastforce simp: has_id_def split: prod.splits reply.splits option.splits if_splits)
qed


lemma others_have_ids:
  "\<forall>x\<in>set gs. snd x \<noteq> None \<longrightarrow> has_id (snd x) \<Longrightarrow>
     \<forall>x\<in>set (otherActiveGoals gs skill). has_id (snd x)"
  by (auto simp: otherActiveGoals_def is_active_def split: option.splits)

lemma clear_others_inactive:
  "(k, g) \<in> set (clear_others skill gs) \<Longrightarrow> k \<noteq> skill \<Longrightarrow> \<not> is_active g"
  by (auto simp: clear_others_def is_active_def split: option.splits if_splits)

lemma clear_others_keys: "map fst (clear_others skill gs) = map fst gs"
  by (induction gs) (auto simp: clear_others_def)


lemma update_only_active:
  "distinct (map fst gs) \<Longrightarrow> \<forall>x\<in>set gs. fst x \<noteq> skill \<longrightarrow> \<not> is_active (snd x) \<Longrightarrow>
     is_active v \<Longrightarrow>
     filter (\<lambda>(k, g). is_active g) (AList.update skill v gs) = [(skill, v)]"
proof (induction gs)
  case Nil
  then show ?case by simp
next
  case (Cons p gs)
  obtain k g where p: "p = (k, g)" by (cases p)
  show ?case
  proof (cases "k = skill")
    case True
    with Cons.prems p have "\<forall>x\<in>set gs. \<not> is_active (snd x)"
      by force
    then have "filter (\<lambda>(k, g). is_active g) gs = []"
      by (auto simp: filter_empty_conv)
    with True p Cons.prems(3) show ?thesis by simp
  next
    case False
    with Cons p show ?thesis by auto
  qed
qed

lemma goal_store_simps:
  "athlete goal_store = Some mia"
  "editGoalText goal_store = ''hit the strike zone''"
  "goals goal_store =
     [(''hitting'', Some \<lparr>g_id = ''g'', g_text = ''line drives'', g_isActive = True\<rparr>),
      (''pitching'', None), (''fielding'', None), (''conditioning'', None)]"
  "new_goal mia ''pitching'' goal_store =
     \<lparr>gi_athlete_id = ''a1'', gi_skill = ''pitching'', gi_text = ''hit the strike zone'',
      gi_is_active = True\<rparr>"
  by (simp_all add: goal_store_def initial_store_def new_goal_def mia_def)


text \<open>
  The filter and the two conditions of the code, written out: the other active goals
  are the entries of the goals object, in its order, whose key is not the skill and
  whose goal is not \<open>null\<close> and has \<open>isActive\<close> true.
\<close>

lemma otherActiveGoals_explicit:
  "otherActiveGoals gs skill =
     filter (\<lambda>(k, g). k \<noteq> skill \<and> (case g of None \<Rightarrow> False | Some x \<Rightarrow> g_isActive x)) gs"
  by (simp add: otherActiveGoals_def is_active_def)

lemma deactivations_explicit:
  "map (\<lambda>(k, g). Update_goal_is_active (g_id (the g)) False)
       (filter (\<lambda>(k, g). k \<noteq> skill \<and> (case g of None \<Rightarrow> False | Some x \<Rightarrow> g_isActive x)) gs)
   = [Update_goal_is_active (g_id x) False. (k, Some x) \<leftarrow> gs, k \<noteq> skill \<and> g_isActive x]"
  by (induction gs) (auto split: option.splits if_splits)

lemma deactivations_member:
  "(k, Some x) \<in> set gs \<Longrightarrow> k \<noteq> skill \<Longrightarrow> g_isActive x \<Longrightarrow>
     Update_goal_is_active (g_id x) False
       \<in> set [Update_goal_is_active (g_id x) False. (k, Some x) \<leftarrow> gs, k \<noteq> skill \<and> g_isActive x]"
  by (induction gs) (auto split: option.splits)

lemma active_filter_explicit:
  "filter (\<lambda>(k, g). case g of None \<Rightarrow> False | Some x \<Rightarrow> g_isActive x) gs =
   filter (\<lambda>(k, g). is_active g) gs"
  by (simp add: is_active_def)

lemma three_goal_store_simps:
  "athlete three_goal_store = Some mia"
  "editGoalText three_goal_store = ''hit the strike zone''"
  "goals three_goal_store =
     [(''hitting'', Some \<lparr>g_id = ''g1'', g_text = ''line drives'', g_isActive = True\<rparr>),
      (''pitching'', None),
      (''fielding'', Some \<lparr>g_id = ''g2'', g_text = ''clean backhand'', g_isActive = True\<rparr>),
      (''conditioning'', Some \<lparr>g_id = ''g3'', g_text = ''faster sprints'', g_isActive = False\<rparr>)]"
  by (simp_all add: three_goal_store_def initial_store_def)

text \<open>
  C2. On the free tier, with a current athlete, non-empty text and no goal for the
  skill (its entry missing or \<open>null\<close>), when no update is lost to a transport fault
  and the insert is accepted: the requests \<open>saveGoal\<close> issues are one update
  \<open>is_active = false\<close> for every entry of the goals object with another key and an
  active goal, in the order of the object, and after all of them the insert of the new
  active goal; so every other skill whose goal was active has its update before the
  insert. The resulting goals state has exactly one active goal, the new one for the
  skill, however many were active before. The goals object has distinct keys and its
  goals carry the non-empty identifiers the backend gave them.
\<close>

theorem saveGoal_free_single_active:
  assumes "athlete st = Some a" and "editGoalText st \<noteq> []"
    and "map_of (goals st) skill = None \<or> map_of (goals st) skill = Some None"
    and "distinct (map fst (goals st))"
    and "\<forall>k x. (k, Some x) \<in> set (goals st) \<longrightarrow> g_id x \<noteq> []"
    and "deactivate gw
           (filter (\<lambda>(k, g). k \<noteq> skill \<and> (case g of None \<Rightarrow> False | Some x \<Rightarrow> g_isActive x))
              (goals st)) w = (None, w1, dl)"
    and "insert_goal gw \<lparr>gi_athlete_id = a_id a, gi_skill = skill,
                          gi_text = editGoalText st, gi_is_active = True\<rparr> w1
           = (Reply newGoal, w2)"
    and "saveGoal gw False skill st w = (st', w', lg)"
  shows "map fst lg =
           [Update_goal_is_active (g_id x) False.
              (k, Some x) \<leftarrow> goals st, k \<noteq> skill \<and> g_isActive x]
           @ [Insert_goal \<lparr>gi_athlete_id = a_id a, gi_skill = skill,
                           gi_text = editGoalText st, gi_is_active = True\<rparr>]
       \<and> (\<forall>k x. (k, Some x) \<in> set (goals st) \<and> k \<noteq> skill \<and> g_isActive x \<longrightarrow>
             Update_goal_is_active (g_id x) False \<in> set (butlast (map fst lg)))
       \<and> filter (\<lambda>(k, g). case g of None \<Rightarrow> False | Some x \<Rightarrow> g_isActive x) (goals st') =
           [(skill, Some \<lparr>g_id = gr_id newGoal, g_text = gr_text newGoal, g_isActive = True\<rparr>)]"
proof -
  let ?ups = "[Update_goal_is_active (g_id x) False.
                 (k, Some x) \<leftarrow> goals st, k \<noteq> skill \<and> g_isActive x]"
  let ?ins = "Insert_goal \<lparr>gi_athlete_id = a_id a, gi_skill = skill,
                           gi_text = editGoalText st, gi_is_active = True\<rparr>"
  have loop: "deactivate gw (otherActiveGoals (goals st) skill) w = (None, w1, dl)"
    using assms(6) by (simp add: otherActiveGoals_explicit)
  have ins: "insert_goal gw (new_goal a skill st) w1 = (Reply newGoal, w2)"
    using assms(7) by (simp add: new_goal_def)
  have no_id: "\<not> has_id (goal_at (goals st) skill)"
    using assms(3) by (auto simp: has_id_def goal_at_def)
  have ids: "\<forall>x\<in>set (goals st). snd x \<noteq> None \<longrightarrow> has_id (snd x)"
    using assms(5) by (auto simp: has_id_def split: option.splits)
  have res: "st' = goal_saved (st\<lparr>saving := True, error := None,
                 goals := AList.update skill
                   (Some \<lparr>g_id = gr_id newGoal, g_text = gr_text newGoal, g_isActive = True\<rparr>)
                   (clear_others skill (goals st))\<rparr>)"
    and lg: "lg = dl @ [(Insert_goal (new_goal a skill st), Accepted)]"
    using assms(1,2,8) loop ins no_id by (auto simp: saveGoal_def Let_def)
  have "map fst dl =
      map (\<lambda>(k, g). Update_goal_is_active (g_id (the g)) False) (otherActiveGoals (goals st) skill)"
    using deactivate_all [OF loop others_have_ids [OF ids]] .
  then have reqs: "map fst dl = ?ups"
    by (simp add: otherActiveGoals_explicit deactivations_explicit)
  from lg reqs have log: "map fst lg = ?ups @ [?ins]"
    by (simp add: new_goal_def)
  have every: "\<forall>k x. (k, Some x) \<in> set (goals st) \<and> k \<noteq> skill \<and> g_isActive x \<longrightarrow>
      Update_goal_is_active (g_id x) False \<in> set (butlast (map fst lg))"
    unfolding log butlast_snoc by (blast intro: deactivations_member)
  have "filter (\<lambda>(k, g). is_active g)
          (AList.update skill
             (Some \<lparr>g_id = gr_id newGoal, g_text = gr_text newGoal, g_isActive = True\<rparr>)
             (clear_others skill (goals st))) =
        [(skill, Some \<lparr>g_id = gr_id newGoal, g_text = gr_text newGoal, g_isActive = True\<rparr>)]"
    by (rule update_only_active)
       (use assms(4) in \<open>auto simp: clear_others_keys is_active_def dest: clear_others_inactive\<close>)
  with res have one: "filter (\<lambda>(k, g). case g of None \<Rightarrow> False | Some x \<Rightarrow> g_isActive x) (goals st') =
           [(skill, Some \<lparr>g_id = gr_id newGoal, g_text = gr_text newGoal, g_isActive = True\<rparr>)]"
    by (simp add: goal_saved_def active_filter_explicit)
  from log every one show ?thesis
    by blast
qed

text \<open>
  On the reference backend with two other active goals and an inactive one: two
  updates, then the insert; one active goal locally and one on the backend.
\<close>

theorem saveGoal_free_single_active_witness:
  "map fst (snd (snd (saveGoal (backend_gateway accept_all) False ''pitching''
                        three_goal_store three_goal_backend)))
     = [Update_goal_is_active ''g1'' False, Update_goal_is_active ''g2'' False,
        Insert_goal \<lparr>gi_athlete_id = ''a1'', gi_skill = ''pitching'',
                     gi_text = ''hit the strike zone'', gi_is_active = True\<rparr>]
   \<and> filter (\<lambda>(k, g). case g of None \<Rightarrow> False | Some x \<Rightarrow> g_isActive x)
        (goals (fst (saveGoal (backend_gateway accept_all) False ''pitching''
                       three_goal_store three_goal_backend)))
     = [(''pitching'', Some \<lparr>g_id = ''g+++'', g_text = ''hit the strike zone'', g_isActive = True\<rparr>)]
   \<and> map gr_skill (filter gr_is_active
        (b_goals (fst (snd (saveGoal (backend_gateway accept_all) False ''pitching''
                              three_goal_store three_goal_backend)))))
     = [''pitching'']"
proof -
  let ?gw = "backend_gateway accept_all"
  let ?g1 = "\<lparr>gr_id = ''g1'', gr_athlete_id = ''a1'', gr_skill = ''hitting'',
               gr_text = ''line drives'', gr_is_active = False\<rparr>"
  let ?g2 = "\<lparr>gr_id = ''g2'', gr_athlete_id = ''a1'', gr_skill = ''fielding'',
               gr_text = ''clean backhand'', gr_is_active = False\<rparr>"
  let ?g3 = "\<lparr>gr_id = ''g3'', gr_athlete_id = ''a1'', gr_skill = ''conditioning'',
               gr_text = ''faster sprints'', gr_is_active = False\<rparr>"
  let ?new = "\<lparr>gr_id = ''g+++'', gr_athlete_id = ''a1'', gr_skill = ''pitching'',
               gr_text = ''hit the strike zone'', gr_is_active = True\<rparr>"
  let ?b1 = "three_goal_backend\<lparr>b_goals := [?g1, ?g2, ?g3], b_served := 2\<rparr>"
  let ?b2 = "three_goal_backend\<lparr>b_goals := [?g1, ?g2, ?g3, ?new], b_served := 3\<rparr>"
  let ?st = three_goal_store
  obtain st' w' lg where run: "saveGoal ?gw False ''pitching'' ?st three_goal_backend = (st', w', lg)"
    by (cases "saveGoal ?gw False ''pitching'' ?st three_goal_backend")
  have h1: "athlete ?st = Some mia" and h2: "editGoalText ?st \<noteq> []"
    and h3: "map_of (goals ?st) ''pitching'' = None \<or> map_of (goals ?st) ''pitching'' = Some None"
    and h4: "distinct (map fst (goals ?st))"
    and h5: "\<forall>k x. (k, Some x) \<in> set (goals ?st) \<longrightarrow> g_id x \<noteq> []"
    by (auto simp: three_goal_store_simps)
  have h6: "deactivate ?gw
              (filter (\<lambda>(k, g). k \<noteq> ''pitching'' \<and> (case g of None \<Rightarrow> False | Some x \<Rightarrow> g_isActive x))
                 (goals ?st)) three_goal_backend
              = (None, ?b1, [(Update_goal_is_active ''g1'' False, Accepted),
                             (Update_goal_is_active ''g2'' False, Accepted)])"
    by (simp add: three_goal_store_simps backend_gateway_def serve_def accept_all_def
          three_goal_backend_def empty_backend_def)
  have h7: "insert_goal ?gw \<lparr>gi_athlete_id = a_id mia, gi_skill = ''pitching'',
                              gi_text = editGoalText ?st, gi_is_active = True\<rparr> ?b1
              = (Reply ?new, ?b2)"
    by (simp add: three_goal_store_simps backend_gateway_def serve_def accept_all_def
          three_goal_backend_def empty_backend_def stored_goal_def fresh_id_def mia_def)
  have w': "w' = ?b2"
    using run h6 h7
    by (simp add: saveGoal_def has_id_def goal_at_def three_goal_store_simps
          otherActiveGoals_explicit new_goal_def)
  show ?thesis
    using saveGoal_free_single_active [OF h1 h2 h3 h4 h5 h6 h7 run] run w'
    by (simp add: three_goal_store_simps mia_def three_goal_backend_def)
qed

text \<open>
  C8. With empty text and no goal for the skill, \<open>saveGoal\<close> issues no request at
  all, and the goals state reads the same at every skill; where the skill's entry is
  \<open>null\<close> the goals object is unchanged.
\<close>

theorem saveGoal_empty_text_no_goal:
  assumes "editGoalText st = []" and "goal_at (goals st) skill = None"
    and "saveGoal gw pro skill st w = (st', w', lg)"
  shows "lg = [] \<and> w' = w
       \<and> (\<forall>k. goal_at (goals st') k = goal_at (goals st) k)
       \<and> (map_of (goals st) skill = Some None \<longrightarrow> goals st' = goals st)"
proof (cases "athlete st")
  case None
  with assms show ?thesis by (simp add: saveGoal_def)
next
  case (Some a)
  have no_id: "\<not> has_id (goal_at (goals st) skill)"
    using assms(2) by (simp add: has_id_def)
  have st': "st' = goal_saved (st\<lparr>saving := True, error := None,
                       goals := AList.update skill None (goals st)\<rparr>)"
    and lg: "lg = []" and w': "w' = w"
    using assms Some no_id by (auto simp: saveGoal_def Let_def)
  have same: "\<forall>k. goal_at (goals st') k = goal_at (goals st) k"
    using assms(2) unfolding st' goal_saved_def
    by (auto simp: goal_at_def update_conv' split: option.splits)
  have triv: "map_of (goals st) skill = Some None \<longrightarrow> goals st' = goals st"
    unfolding st' goal_saved_def by (simp add: update_triv)
  from lg w' same triv show ?thesis by simp
qed

theorem saveGoal_empty_text_no_goal_witness:
  "snd (snd (saveGoal (backend_gateway accept_all) False ''pitching''
               (goal_store\<lparr>editGoalText := []\<rparr>) goal_backend)) = []
   \<and> goals (fst (saveGoal (backend_gateway accept_all) False ''pitching''
               (goal_store\<lparr>editGoalText := []\<rparr>) goal_backend))
     = goals goal_store"
proof -
  let ?st = "goal_store\<lparr>editGoalText := []\<rparr>"
  obtain st' w' lg where run:
    "saveGoal (backend_gateway accept_all) False ''pitching'' ?st goal_backend = (st', w', lg)"
    by (cases "saveGoal (backend_gateway accept_all) False ''pitching'' ?st goal_backend")
  have h1: "editGoalText ?st = []" and h2: "goal_at (goals ?st) ''pitching'' = None"
    and h3: "map_of (goals ?st) ''pitching'' = Some None"
    by (simp_all add: goal_store_simps goal_at_def)
  show ?thesis
    using saveGoal_empty_text_no_goal [OF h1 h2 run] run h3
    by simp
qed




section \<open>The goals object keeps distinct keys\<close>

text \<open>
  The association list stands for an object, so its keys are distinct. Every action of
  the store keeps them so: the load builds the object by assignments to an empty one,
  and \<open>saveGoal\<close> only assigns to keys.
\<close>

lemma foldl_update_distinct:
  "distinct (map fst m) \<Longrightarrow>
     distinct (map fst (foldl (\<lambda>m x. AList.update (f x) (h x) m) m xs))"
  by (induction xs arbitrary: m) (simp_all add: distinct_update)

lemma goalsMap_distinct: "distinct (map fst (goalsMap goalData))"
  unfolding goalsMap_def
  by (intro foldl_update_distinct) simp

lemma loadAthleteData_distinct:
  "distinct (map fst (goals st)) \<Longrightarrow> loadAthleteData gw pro aid st w = (st', w', lg) \<Longrightarrow>
     distinct (map fst (goals st'))"
  by (auto simp: loadAthleteData_def caught_def Let_def goalsMap_distinct
        split: prod.splits reply.splits if_splits)

lemma saveGoal_distinct:
  assumes "distinct (map fst (goals st))" and "saveGoal gw pro skill st w = (st', w', lg)"
  shows "distinct (map fst (goals st'))"
proof (cases "athlete st")
  case None
  with assms show ?thesis by (simp add: saveGoal_def)
next
  case (Some a)
  let ?G = "goal_at (goals st) skill"
  consider (del) "editGoalText st = []" "has_id ?G"
    | (clr) "editGoalText st = []" "\<not> has_id ?G"
    | (upd) "editGoalText st \<noteq> []" "has_id ?G"
    | (new) "editGoalText st \<noteq> []" "\<not> has_id ?G"
    by blast
  then show ?thesis
  proof cases
    case del
    obtain r w1 where r: "delete_goal gw (g_id (the ?G)) w = (r, w1)"
      by (cases "delete_goal gw (g_id (the ?G)) w")
    from assms Some del r show ?thesis
      by (cases r) (auto simp: saveGoal_def caught_def goal_saved_def Let_def distinct_update)
  next
    case clr
    with assms Some show ?thesis
      by (auto simp: saveGoal_def goal_saved_def Let_def distinct_update)
  next
    case upd
    obtain r w1 where r: "update_goal_text gw (g_id (the ?G)) (editGoalText st) w = (r, w1)"
      by (cases "update_goal_text gw (g_id (the ?G)) (editGoalText st) w")
    from assms Some upd r show ?thesis
      by (cases r) (auto simp: saveGoal_def caught_def goal_saved_def Let_def distinct_update)
  next
    case new
    obtain res w1 dl where loop:
      "(if \<not> pro then deactivate gw (otherActiveGoals (goals st) skill) w else (None, w, []))
         = (res, w1, dl)"
      by (cases "if \<not> pro then deactivate gw (otherActiveGoals (goals st) skill) w
                 else (None, w, [])") auto
    obtain r w2 where r: "insert_goal gw (new_goal a skill st) w1 = (r, w2)"
      by (cases "insert_goal gw (new_goal a skill st) w1")
    show ?thesis
    proof (cases res)
      case None
      from assms Some new loop [unfolded None] r show ?thesis
        by (cases r)
           (auto simp: saveGoal_def caught_def goal_saved_def Let_def distinct_update
              clear_others_keys)
    next
      case (Some e)
      from assms \<open>athlete st = Some a\<close> new loop [unfolded Some] show ?thesis
        by (auto simp: saveGoal_def caught_def Let_def)
    qed
  qed
qed

lemma handleQuickLog_goals:
  "handleQuickLog gw pro today st w = (st', w', lg) \<Longrightarrow> goals st' = goals st"
  by (auto simp: handleQuickLog_def caught_def Let_def
        split: prod.splits reply.splits option.splits if_splits)

lemma step_distinct:
  assumes "distinct (map fst (goals st))"
    and "step gw Date_parse ev (st, ls, w) = ((st', ls', w'), lg)"
  shows "distinct (map fst (goals st'))"
proof (cases "action_of ev")
  case LoadData
  let ?pro = "isPro Date_parse (at_time ev) (at_profile ev)"
  obtain r w1 where r: "select_athletes gw (if ?pro then 10 else 1) w = (r, w1)"
    by (cases "select_athletes gw (if ?pro then 10 else 1) w")
  show ?thesis
  proof (cases r)
    case (Reply roster)
    show ?thesis
    proof (cases roster)
      case Nil
      with assms LoadData r Reply show ?thesis
        by (auto simp: step_def loadData_def Let_def)
    next
      case (Cons first others)
      let ?cur = "currentAthlete ls first roster"
      let ?st1 = "st\<lparr>loading := True, error := None, athletes := roster, athlete := Some ?cur\<rparr>"
      obtain st2 w2 l2 where inner: "loadAthleteData gw ?pro (a_id ?cur) ?st1 w1 = (st2, w2, l2)"
        by (cases "loadAthleteData gw ?pro (a_id ?cur) ?st1 w1") auto
      from assms(2) LoadData r Reply Cons inner have "st' = st2"
        by (auto simp: step_def loadData_def Let_def)
      with loadAthleteData_distinct [OF _ inner] assms(1) show ?thesis by simp
    qed
  next
    case (Refused e)
    with assms LoadData r show ?thesis by (auto simp: step_def loadData_def caught_def Let_def)
  next
    case (Thrown e)
    with assms LoadData r show ?thesis by (auto simp: step_def loadData_def caught_def Let_def)
  qed
next
  case (SelectAthlete a)
  let ?pro = "isPro Date_parse (at_time ev) (at_profile ev)"
  let ?st1 = "st\<lparr>athlete := Some a, loading := True\<rparr>"
  obtain st2 w2 l2 where inner: "loadAthleteData gw ?pro (a_id a) ?st1 w = (st2, w2, l2)"
    by (cases "loadAthleteData gw ?pro (a_id a) ?st1 w") auto
  from assms(2) SelectAthlete inner have "st' = st2"
    by (auto simp: step_def handleSelectAthlete_def)
  with loadAthleteData_distinct [OF _ inner] assms(1) show ?thesis by simp
next
  case QuickLog
  with assms handleQuickLog_goals [of gw _ "at_day ev" st w] show ?thesis
    by (auto simp: step_def split: prod.splits)
next
  case (SaveGoal skill)
  with assms saveGoal_distinct [of st gw _ skill w] show ?thesis
    by (auto simp: step_def split: prod.splits)
qed (use assms in \<open>auto simp: step_def toggleFocus_def toggleDrill_def\<close>)

lemma run_distinct:
  "distinct (map fst (goals st)) \<Longrightarrow>
   run gw Date_parse evs (st, ls, w) = ((st', ls', w'), lg) \<Longrightarrow>
     distinct (map fst (goals st'))"
proof (induction evs arbitrary: st ls w lg)
  case Nil
  then show ?case by simp
next
  case (Cons ev evs)
  obtain st1 ls1 w1 l1 where s: "step gw Date_parse ev (st, ls, w) = ((st1, ls1, w1), l1)"
    by (cases "step gw Date_parse ev (st, ls, w)") auto
  obtain l2 where r: "run gw Date_parse evs (st1, ls1, w1) = ((st', ls', w'), l2)"
    using Cons.prems(2) s by (auto split: prod.splits)
  from Cons.IH [OF step_distinct [OF Cons.prems(1) s] r] show ?case .
qed


section \<open>Tier gating over executions\<close>

lemma loadAthleteData_athlete:
  "loadAthleteData gw pro aid st w = (st', w', lg) \<Longrightarrow> athlete st' = athlete st"
  by (auto simp: loadAthleteData_def caught_def Let_def split: prod.splits reply.splits if_splits)

lemma loadAthleteData_free:
  "loadAthleteData gw False aid st w = (st', w', lg) \<Longrightarrow>
     (\<forall>x\<in>set lg. free_tier_request (fst x)) \<and> drillFrequency st' = drillFrequency st"
  by (auto simp: loadAthleteData_def caught_def Let_def split: prod.splits reply.splits)

lemma loadData_free:
  assumes "loadData gw False st ls w = (st', ls', w', lg)"
  shows "(\<forall>x\<in>set lg. free_tier_request (fst x)) \<and> drillFrequency st' = drillFrequency st"
proof -
  obtain r w1 where r: "select_athletes gw 1 w = (r, w1)"
    by (cases "select_athletes gw 1 w")
  show ?thesis
  proof (cases r)
    case (Reply roster)
    show ?thesis
    proof (cases roster)
      case Nil
      with assms r Reply show ?thesis by (auto simp: loadData_def)
    next
      case (Cons first others)
      let ?cur = "currentAthlete ls first roster"
      let ?st1 = "st\<lparr>loading := True, error := None, athletes := roster, athlete := Some ?cur\<rparr>"
      obtain st2 w2 l2 where inner: "loadAthleteData gw False (a_id ?cur) ?st1 w1 = (st2, w2, l2)"
        by (cases "loadAthleteData gw False (a_id ?cur) ?st1 w1") auto
      from assms r Reply Cons inner have "st' = st2" "lg = (Select_athletes 1, Accepted) # l2"
        by (auto simp: loadData_def Let_def)
      with loadAthleteData_free [OF inner] show ?thesis by simp
    qed
  next
    case (Refused e)
    with assms r show ?thesis by (auto simp: loadData_def caught_def)
  next
    case (Thrown e)
    with assms r show ?thesis by (auto simp: loadData_def caught_def)
  qed
qed

lemma handleSelectAthlete_free:
  assumes "handleSelectAthlete gw False sel st ls w = (st', ls', w', lg)"
  shows "(\<forall>x\<in>set lg. free_tier_request (fst x)) \<and> drillFrequency st' = drillFrequency st"
proof -
  let ?st1 = "st\<lparr>athlete := Some sel, loading := True\<rparr>"
  obtain st2 w2 l2 where inner: "loadAthleteData gw False (a_id sel) ?st1 w = (st2, w2, l2)"
    by (cases "loadAthleteData gw False (a_id sel) ?st1 w") auto
  with assms have "st' = st2" "lg = l2"
    by (auto simp: handleSelectAthlete_def)
  with loadAthleteData_free [OF inner] show ?thesis by simp
qed

lemma handleQuickLog_free:
  "handleQuickLog gw False today st w = (st', w', lg) \<Longrightarrow>
     (\<forall>x\<in>set lg. free_tier_request (fst x)) \<and> drillFrequency st' = drillFrequency st"
  by (auto simp: handleQuickLog_def caught_def Let_def
        split: prod.splits reply.splits option.splits if_splits)

lemma saveGoal_free:
  assumes "saveGoal gw pro skill st w = (st', w', lg)"
  shows "(\<forall>x\<in>set lg. free_tier_request (fst x)) \<and> drillFrequency st' = drillFrequency st"
proof (cases "athlete st")
  case None
  with assms show ?thesis by (simp add: saveGoal_def)
next
  case (Some a)
  let ?G = "goal_at (goals st) skill"
  consider (del) "editGoalText st = []" "has_id ?G"
    | (clr) "editGoalText st = []" "\<not> has_id ?G"
    | (upd) "editGoalText st \<noteq> []" "has_id ?G"
    | (new) "editGoalText st \<noteq> []" "\<not> has_id ?G"
    by blast
  then show ?thesis
  proof cases
    case del
    obtain r w1 where r: "delete_goal gw (g_id (the ?G)) w = (r, w1)"
      by (cases "delete_goal gw (g_id (the ?G)) w")
    from assms Some del r show ?thesis
      by (cases r) (auto simp: saveGoal_def caught_def goal_saved_def Let_def)
  next
    case clr
    with assms Some show ?thesis
      by (auto simp: saveGoal_def goal_saved_def Let_def)
  next
    case upd
    obtain r w1 where r: "update_goal_text gw (g_id (the ?G)) (editGoalText st) w = (r, w1)"
      by (cases "update_goal_text gw (g_id (the ?G)) (editGoalText st) w")
    from assms Some upd r show ?thesis
      by (cases r) (auto simp: saveGoal_def caught_def goal_saved_def Let_def)
  next
    case new
    obtain res w1 dl where loop:
      "(if \<not> pro then deactivate gw (otherActiveGoals (goals st) skill) w else (None, w, []))
         = (res, w1, dl)"
      by (cases "if \<not> pro then deactivate gw (otherActiveGoals (goals st) skill) w
                 else (None, w, [])") auto
    have dl: "\<forall>x\<in>set dl. free_tier_request (fst x)"
      using loop deactivate_free [of gw "otherActiveGoals (goals st) skill" w res w1 dl]
      by (auto split: if_splits)
    obtain r w2 where r: "insert_goal gw (new_goal a skill st) w1 = (r, w2)"
      by (cases "insert_goal gw (new_goal a skill st) w1")
    show ?thesis
    proof (cases res)
      case None
      from assms Some new loop [unfolded None] r dl show ?thesis
        by (cases r) (auto simp: saveGoal_def caught_def goal_saved_def Let_def)
    next
      case (Some e)
      from assms \<open>athlete st = Some a\<close> new loop [unfolded Some] dl show ?thesis
        by (auto simp: saveGoal_def caught_def Let_def)
    qed
  qed
qed

lemma step_free:
  assumes "\<not> isPro Date_parse (at_time ev) (at_profile ev)"
    and "step gw Date_parse ev (st, ls, w) = ((st', ls', w'), lg)"
  shows "(\<forall>x\<in>set lg. free_tier_request (fst x)) \<and> drillFrequency st' = drillFrequency st"
proof (cases "action_of ev")
  case LoadData
  with assms loadData_free [of gw st ls w] show ?thesis
    by (auto simp: step_def split: prod.splits)
next
  case (SelectAthlete a)
  with assms handleSelectAthlete_free [of gw a st ls w] show ?thesis
    by (auto simp: step_def split: prod.splits)
next
  case QuickLog
  with assms handleQuickLog_free [of gw "at_day ev" st w] show ?thesis
    by (auto simp: step_def split: prod.splits)
next
  case (SaveGoal skill)
  with assms saveGoal_free [of gw False skill st w] show ?thesis
    by (auto simp: step_def split: prod.splits)
qed (use assms in \<open>auto simp: step_def toggleFocus_def toggleDrill_def\<close>)

lemma run_free:
  "\<forall>ev\<in>set evs. \<not> isPro Date_parse (at_time ev) (at_profile ev) \<Longrightarrow>
   run gw Date_parse evs (st, ls, w) = ((st', ls', w'), lg) \<Longrightarrow>
     (\<forall>x\<in>set lg. free_tier_request (fst x)) \<and> drillFrequency st' = drillFrequency st"
proof (induction evs arbitrary: st ls w lg)
  case Nil
  then show ?case by simp
next
  case (Cons ev evs)
  obtain st1 ls1 w1 l1 where s: "step gw Date_parse ev (st, ls, w) = ((st1, ls1, w1), l1)"
    by (cases "step gw Date_parse ev (st, ls, w)") auto
  obtain l2 where r: "run gw Date_parse evs (st1, ls1, w1) = ((st', ls', w'), l2)" and lg: "lg = l1 @ l2"
    using Cons.prems(2) s by (auto split: prod.splits)
  from Cons.prems(1) have here: "\<not> isPro Date_parse (at_time ev) (at_profile ev)"
    and rest: "\<forall>ev\<in>set evs. \<not> isPro Date_parse (at_time ev) (at_profile ev)"
    by simp_all
  from step_free [OF here s] Cons.IH [OF rest r] lg show ?case
    by auto
qed

text \<open>
  C5. In every execution whose actions all find the computed entitlement false, no
  insert into \<open>session_drills\<close> and no select on \<open>drill_frequency\<close> is issued, every
  select on \<open>athletes\<close> has limit 1, and the local drill-frequency state is never
  written: it stays empty when it was empty.
\<close>

theorem free_tier_never_gated:
  assumes "\<forall>ev\<in>set evs. \<not> isPro Date_parse (at_time ev) (at_profile ev)"
    and "run gw Date_parse evs (st, ls, w) = ((st', ls', w'), lg)"
  shows "(\<forall>sid d oc. (Insert_session_drill sid d, oc) \<notin> set lg)
       \<and> (\<forall>a oc. (Select_drill_frequency a, oc) \<notin> set lg)
       \<and> (\<forall>n oc. (Select_athletes n, oc) \<in> set lg \<longrightarrow> n = 1)
       \<and> drillFrequency st' = drillFrequency st"
proof -
  from run_free [OF assms]
  have all: "\<forall>x\<in>set lg. free_tier_request (fst x)" and df: "drillFrequency st' = drillFrequency st"
    by simp_all
  from all have "\<forall>sid d oc. (Insert_session_drill sid d, oc) \<notin> set lg"
    and "\<forall>a oc. (Select_drill_frequency a, oc) \<notin> set lg"
    and "\<forall>n oc. (Select_athletes n, oc) \<in> set lg \<longrightarrow> n = 1"
    by force+
  with df show ?thesis by simp
qed

text \<open>
  A free-tier session on the reference backend (load, select a focus and a drill, log):
  four requests, none of them gated, although a drill was selected and the backend has
  drill-frequency rows for the athlete.
\<close>

theorem free_tier_never_gated_witness:
  "list_all (\<lambda>ev. \<not> isPro no_dates (at_time ev) (at_profile ev)) free_session
   \<and> map fst (snd (run (backend_gateway accept_all) no_dates free_session
        (initial_store ''2025-01-10'', None, roster_backend)))
     = [Select_athletes 1, Select_sessions ''a1'', Select_goals ''a1'',
        Insert_session \<lparr>si_athlete_id = ''a1'', si_date = ''2025-01-10'', si_duration_minutes = 30,
          si_focus = [''hitting''], si_note = None, si_reflection = None\<rparr>]
   \<and> drillFrequency (fst (fst (run (backend_gateway accept_all) no_dates free_session
        (initial_store ''2025-01-10'', None, roster_backend)))) = []
   \<and> b_session_drills (snd (snd (fst (run (backend_gateway accept_all) no_dates free_session
        (initial_store ''2025-01-10'', None, roster_backend))))) = []"
proof -
  have free: "\<forall>ev\<in>set free_session. \<not> isPro no_dates (at_time ev) (at_profile ev)"
    by (simp add: free_session_def free_event_def default_profile_free)
  obtain st' ls' w' lg where run:
    "run (backend_gateway accept_all) no_dates free_session
       (initial_store ''2025-01-10'', None, roster_backend) = ((st', ls', w'), lg)"
    by (cases "run (backend_gateway accept_all) no_dates free_session
       (initial_store ''2025-01-10'', None, roster_backend)") auto
  have lg: "map fst lg = [Select_athletes 1, Select_sessions ''a1'', Select_goals ''a1'',
        Insert_session \<lparr>si_athlete_id = ''a1'', si_date = ''2025-01-10'', si_duration_minutes = 30,
          si_focus = [''hitting''], si_note = None, si_reflection = None\<rparr>]"
    and w': "b_session_drills w' = []"
    using run
    by (auto simp: free_session_def free_event_def step_def isPro_def default_profile_def
          truthy_flag_def loadData_def loadAthleteData_def currentAthlete_def truthy_str_def
          backend_gateway_def serve_def accept_all_def roster_backend_def empty_backend_def
          initial_store_def mia_def zoe_def toggleFocus_def toggleDrill_def toggle_def
          handleQuickLog_def new_session_def or_null_def stored_session_def fresh_id_def
          goalsMap_def FOCUS_OPTIONS_def Let_def)
  show ?thesis
    using free_tier_never_gated [OF free run] run free lg w'
    by (simp add: initial_store_def list_all_iff)
qed


section \<open>Selection of the current athlete\<close>

lemma find_Some: "find P xs = Some x \<Longrightarrow> P x \<and> x \<in> set xs"
  by (induction xs) (auto split: if_splits)

lemma currentAthlete_in_roster:
  "currentAthlete ls first (first # others) \<in> set (first # others)"
  by (auto simp: currentAthlete_def split: option.splits if_splits dest: find_Some)

lemma currentAthlete_found:
  assumes "\<forall>a\<in>set roster. a_id a \<noteq> []" and "\<exists>a\<in>set roster. ls = Some (a_id a)"
  shows "find (\<lambda>a. Some (a_id a) = ls) roster = Some (currentAthlete ls first roster)"
proof -
  from assms have t: "truthy_str ls"
    by (auto simp: truthy_str_def)
  from assms(2) have "find (\<lambda>a. Some (a_id a) = ls) roster \<noteq> None"
    by (auto simp: find_None_iff)
  with t show ?thesis
    by (auto simp: currentAthlete_def)
qed

lemma currentAthlete_fallback:
  "\<not> (\<exists>a\<in>set roster. ls = Some (a_id a)) \<Longrightarrow> currentAthlete ls first roster = first"
  by (auto simp: currentAthlete_def split: option.splits dest: find_Some)

lemma currentAthlete_again:
  "currentAthlete (Some (a_id (currentAthlete ls first (first # others)))) first (first # others)
     = currentAthlete ls first (first # others)"
proof (cases "if truthy_str ls then find (\<lambda>a. Some (a_id a) = ls) (first # others) else None")
  case None
  then have "currentAthlete ls first (first # others) = first"
    by (simp add: currentAthlete_def)
  then show ?thesis
    by (simp add: currentAthlete_def)
next
  case (Some c)
  then have t: "truthy_str ls" and f: "find (\<lambda>a. Some (a_id a) = ls) (first # others) = Some c"
    by (auto split: if_splits)
  from find_Some [OF f] have "Some (a_id c) = ls"
    by simp
  moreover from Some have "currentAthlete ls first (first # others) = c"
    by (simp add: currentAthlete_def)
  ultimately show ?thesis
    by simp
qed

lemma loadData_result:
  assumes "select_athletes gw (if pro then 10 else 1) w = (Reply (first # others), w1)"
  shows "athlete (fst (loadData gw pro st ls w)) = Some (currentAthlete ls first (first # others))
       \<and> fst (snd (loadData gw pro st ls w)) = Some (a_id (currentAthlete ls first (first # others)))"
proof -
  let ?cur = "currentAthlete ls first (first # others)"
  let ?st1 = "st\<lparr>loading := True, error := None, athletes := first # others, athlete := Some ?cur\<rparr>"
  obtain st2 w2 l2 where inner: "loadAthleteData gw pro (a_id ?cur) ?st1 w1 = (st2, w2, l2)"
    by (cases "loadAthleteData gw pro (a_id ?cur) ?st1 w1") auto
  from loadAthleteData_athlete [OF inner] have "athlete st2 = Some ?cur"
    by simp
  with assms inner show ?thesis
    by (simp add: loadData_def Let_def)
qed

lemma handleSelectAthlete_persists:
  "fst (snd (handleSelectAthlete gw pro selectedAthlete st ls w)) = Some (a_id selectedAthlete)"
  by (simp add: handleSelectAthlete_def split: prod.splits)

text \<open>
  C7. For every non-empty roster returned by the athletes select (identifiers being
  non-empty), \<open>loadData\<close> makes current the first athlete of the roster whose
  identifier is the stored one when there is one, and the first athlete of the roster
  otherwise. The identifier of the chosen athlete is written to storage, and any later
  \<open>loadData\<close> that receives the same roster and reads that storage, whatever the
  gateway, the tier and the state, makes the same athlete current and leaves the
  storage as it is.
\<close>

theorem loadData_current_athlete:
  assumes "select_athletes gw (if pro then 10 else 1) w = (Reply roster, w1)"
    and "roster \<noteq> []" and "\<forall>a\<in>set roster. a_id a \<noteq> []"
    and "loadData gw pro st ls w = (st', ls', w', lg)"
  shows "\<exists>cur\<in>set roster.
           athlete st' = Some cur \<and> ls' = Some (a_id cur)
         \<and> (if \<exists>a\<in>set roster. ls = Some (a_id a)
            then find (\<lambda>a. Some (a_id a) = ls) roster = Some cur
            else cur = hd roster)
         \<and> (\<forall>gw2 pro2 st2 w2 w3.
               select_athletes gw2 (if pro2 then 10 else 1) w2 = (Reply roster, w3::'v) \<longrightarrow>
                 athlete (fst (loadData gw2 pro2 st2 ls' w2)) = Some cur
               \<and> fst (snd (loadData gw2 pro2 st2 ls' w2)) = ls')"
proof -
  from assms(2) obtain first others where roster: "roster = first # others"
    by (cases roster) auto
  let ?cur = "currentAthlete ls first roster"
  have here: "athlete st' = Some ?cur" "ls' = Some (a_id ?cur)"
    using loadData_result [OF assms(1) [unfolded roster], of st ls] assms(4)
    by (simp_all add: roster)
  have mem: "?cur \<in> set roster"
    unfolding roster by (rule currentAthlete_in_roster)
  have sel: "if \<exists>a\<in>set roster. ls = Some (a_id a)
             then find (\<lambda>a. Some (a_id a) = ls) roster = Some ?cur
             else ?cur = hd roster"
    using currentAthlete_found [OF assms(3), of ls first] currentAthlete_fallback [of roster ls first]
    by (auto simp: roster)
  have again: "\<forall>gw2 pro2 st2 w2 w3.
      select_athletes gw2 (if pro2 then 10 else 1) w2 = (Reply roster, w3::'v) \<longrightarrow>
        athlete (fst (loadData gw2 pro2 st2 ls' w2)) = Some ?cur
      \<and> fst (snd (loadData gw2 pro2 st2 ls' w2)) = ls'"
  proof (intro allI impI)
    fix gw2 :: "'v gateway" and pro2 st2 w2 and w3 :: 'v
    assume "select_athletes gw2 (if pro2 then 10 else 1) w2 = (Reply roster, w3)"
    from loadData_result [OF this [unfolded roster], of st2 ls']
    show "athlete (fst (loadData gw2 pro2 st2 ls' w2)) = Some ?cur
        \<and> fst (snd (loadData gw2 pro2 st2 ls' w2)) = ls'"
      using currentAthlete_again [of ls first others]
      by (simp add: here roster)
  qed
  from here mem sel again show ?thesis
    by blast
qed

theorem loadData_current_athlete_witness:
  "athlete (fst (loadData (backend_gateway accept_all) True (initial_store ''2025-01-10'')
       (Some ''a2'') roster_backend)) = Some zoe
   \<and> fst (snd (loadData (backend_gateway accept_all) True (initial_store ''2025-01-10'')
       (Some ''a2'') roster_backend)) = Some ''a2''
   \<and> athlete (fst (loadData (backend_gateway accept_all) True (initial_store ''2025-01-11'')
       (Some ''a2'') (roster_backend\<lparr>b_served := 4\<rparr>))) = Some zoe
   \<and> athlete (fst (loadData (backend_gateway accept_all) True (initial_store ''2025-01-10'')
       (Some ''gone'') roster_backend)) = Some mia"
proof -
  let ?gw = "backend_gateway accept_all"
  let ?st = "initial_store ''2025-01-10''"
  have h1: "select_athletes ?gw (if True then 10 else 1) roster_backend
              = (Reply [mia, zoe], roster_backend\<lparr>b_served := 1\<rparr>)"
    by (simp add: backend_gateway_def serve_def accept_all_def roster_backend_def empty_backend_def)
  have h1': "select_athletes ?gw (if True then 10 else 1) (roster_backend\<lparr>b_served := 4\<rparr>)
              = (Reply [mia, zoe], roster_backend\<lparr>b_served := 5\<rparr>)"
    by (simp add: backend_gateway_def serve_def accept_all_def roster_backend_def empty_backend_def)
  have h2: "[mia, zoe] \<noteq> []" and h3: "\<forall>a\<in>set [mia, zoe]. a_id a \<noteq> []"
    by (simp_all add: mia_def zoe_def)
  obtain st' ls' w' lg where run: "loadData ?gw True ?st (Some ''a2'') roster_backend = (st', ls', w', lg)"
    by (cases "loadData ?gw True ?st (Some ''a2'') roster_backend")
  obtain st2 ls2 w2 lg2 where run2: "loadData ?gw True ?st (Some ''gone'') roster_backend = (st2, ls2, w2, lg2)"
    by (cases "loadData ?gw True ?st (Some ''gone'') roster_backend")
  from loadData_current_athlete [where 'v = backend, OF h1 h2 h3 run]
  obtain cur where cur: "athlete st' = Some cur" "ls' = Some (a_id cur)"
    and sel: "if \<exists>a\<in>set [mia, zoe]. Some ''a2'' = Some (a_id a)
              then find (\<lambda>a. Some (a_id a) = Some ''a2'') [mia, zoe] = Some cur
              else cur = hd [mia, zoe]"
    and again: "\<forall>gw2 pro2 st2 w2 w3.
      select_athletes gw2 (if pro2 then 10 else 1) w2 = (Reply [mia, zoe], w3::backend) \<longrightarrow>
        athlete (fst (loadData gw2 pro2 st2 ls' w2)) = Some cur
      \<and> fst (snd (loadData gw2 pro2 st2 ls' w2)) = ls'"
    by blast
  from sel have z: "cur = zoe"
    by (simp add: mia_def zoe_def)
  from again [rule_format, OF h1', of "initial_store ''2025-01-11''"] cur z
  have re: "athlete (fst (loadData ?gw True (initial_store ''2025-01-11'') (Some ''a2'')
       (roster_backend\<lparr>b_served := 4\<rparr>))) = Some zoe"
    by (simp add: zoe_def)
  from loadData_current_athlete [where 'v = backend, OF h1 h2 h3 run2]
  obtain cur2 where cur2: "athlete st2 = Some cur2"
    and sel2: "if \<exists>a\<in>set [mia, zoe]. Some ''gone'' = Some (a_id a)
              then find (\<lambda>a. Some (a_id a) = Some ''gone'') [mia, zoe] = Some cur2
              else cur2 = hd [mia, zoe]"
    by blast
  from sel2 have m: "cur2 = mia"
    by (simp add: mia_def zoe_def)
  from cur z re cur2 m run run2 show ?thesis
    by (simp add: zoe_def)
qed

end
